theory Spec2Isabelle
  imports Complex_Main
begin

section \<open>JavaScript numbers, strings and arrays\<close>

text \<open>
  A finite JavaScript number is modelled by a real: sums, products and quotients are
  exact, so the rounding error of double-precision arithmetic is outside the model.
  \<open>NaN\<close> and the infinities appear only where the source tests for them
  (\<open>Number.isFinite\<close> on the energy passed to the cost calculation).
\<close>

datatype jsnumber = Finite real | NaN | PosInfinity | NegInfinity

fun isFinite :: "jsnumber \<Rightarrow> bool" where
  "isFinite (Finite x) = True"
| "isFinite NaN = False"
| "isFinite PosInfinity = False"
| "isFinite NegInfinity = False"

fun finiteValue :: "jsnumber \<Rightarrow> real" where
  "finiteValue (Finite x) = x"
| "finiteValue NaN = 0"
| "finiteValue PosInfinity = 0"
| "finiteValue NegInfinity = 0"

text \<open>The comparison \<open>a <= b\<close> of two numbers.\<close>

fun jsLe :: "jsnumber \<Rightarrow> jsnumber \<Rightarrow> bool" where
  "jsLe NaN b = False"
| "jsLe a NaN = False"
| "jsLe NegInfinity b = True"
| "jsLe a PosInfinity = True"
| "jsLe (Finite x) (Finite y) = (x \<le> y)"
| "jsLe a b = False"

text \<open>
  \<open>Number(x.toFixed(d))\<close>: the sign is split off, a magnitude of at least \<open>10^21\<close> is
  printed in full, and otherwise the magnitude is rounded to the nearest multiple of
  \<open>10^-d\<close>, the larger one on a tie.
\<close>

definition toFixed :: "nat \<Rightarrow> real \<Rightarrow> real" where
  "toFixed d x =
     (if 10 ^ 21 \<le> \<bar>x\<bar> then x
      else sgn x * real_of_int \<lfloor>\<bar>x\<bar> * 10 ^ d + 1 / 2\<rfloor> / 10 ^ d)"

text \<open>The rounding of a magnitude inside \<open>toFixed\<close>.\<close>

definition roundMag :: "nat \<Rightarrow> real \<Rightarrow> real" where
  "roundMag d a = (if 10 ^ 21 \<le> a then a else real_of_int \<lfloor>a * 10 ^ d + 1 / 2\<rfloor> / 10 ^ d)"

text \<open>
  \<open>Array.prototype.sort\<close> with a comparator is stable; \<open>cmp a b \<le> 0\<close> keeps \<open>a\<close> before
  \<open>b\<close>. Every comparator of the source is a consistent one (a difference of keys, or
  a lexicographic chain of such differences), for which the result is the stable sorted
  arrangement, computed here by insertion from the right.
\<close>

fun insortBy :: "('a \<Rightarrow> 'a \<Rightarrow> real) \<Rightarrow> 'a \<Rightarrow> 'a list \<Rightarrow> 'a list" where
  "insortBy cmp x [] = [x]"
| "insortBy cmp x (y # ys) =
     (if cmp x y \<le> 0 then x # y # ys else y # insortBy cmp x ys)"

definition sortBy :: "('a \<Rightarrow> 'a \<Rightarrow> real) \<Rightarrow> 'a list \<Rightarrow> 'a list" where
  "sortBy cmp xs = foldr (insortBy cmp) xs []"

text \<open>\<open>xs[0]\<close>, which is \<open>undefined\<close> on an empty array.\<close>

fun first :: "'a list \<Rightarrow> 'a option" where
  "first [] = None"
| "first (x # xs) = Some x"

text \<open>
  Strings are lists of code units below 256 (Latin-1). \<open>trim\<close> strips the white space
  of that range, \<open>toLowerCase\<close> maps its upper-case letters.
\<close>

definition isWhiteSpace :: "char \<Rightarrow> bool" where
  "isWhiteSpace c =
     (let n = (of_char c :: nat) in (9 \<le> n \<and> n \<le> 13) \<or> n = 32 \<or> n = 160)"

definition trim :: "string \<Rightarrow> string" where
  "trim s = rev (dropWhile isWhiteSpace (rev (dropWhile isWhiteSpace s)))"

definition lowerChar :: "char \<Rightarrow> char" where
  "lowerChar c =
     (let n = (of_char c :: nat)
      in if (65 \<le> n \<and> n \<le> 90) \<or> (192 \<le> n \<and> n \<le> 222 \<and> n \<noteq> 215)
         then char_of (n + 32) else c)"

definition toLowerCase :: "string \<Rightarrow> string" where
  "toLowerCase s = map lowerChar s"

text \<open>\<open>a.includes(b)\<close>: \<open>b\<close> occurs in \<open>a\<close> as a contiguous piece.\<close>

fun startsWith :: "string \<Rightarrow> string \<Rightarrow> bool" where
  "startsWith a [] = True"
| "startsWith [] (y # ys) = False"
| "startsWith (x # xs) (y # ys) = (x = y \<and> startsWith xs ys)"

fun includesStr :: "string \<Rightarrow> string \<Rightarrow> bool" where
  "includesStr [] b = (b = [])"
| "includesStr (x # xs) b = (startsWith (x # xs) b \<or> includesStr xs b)"

text \<open>The character class \<open>[a-z0-9]\<close>.\<close>

definition isLowerAlnum :: "char \<Rightarrow> bool" where
  "isLowerAlnum c =
     (let n = (of_char c :: nat) in (97 \<le> n \<and> n \<le> 122) \<or> (48 \<le> n \<and> n \<le> 57))"

text \<open>
  \<open>s.split(/[^a-z0-9]+/g)\<close>: the pieces between the maximal runs of characters outside
  the class; a run at either end leaves an empty piece there.
\<close>

fun splitNonAlnum :: "string \<Rightarrow> string list" where
  "splitNonAlnum [] = [[]]"
| "splitNonAlnum (c # cs) =
     (if isLowerAlnum c then
        (case splitNonAlnum cs of [] \<Rightarrow> [[c]] | p # ps \<Rightarrow> (c # p) # ps)
      else
        (case cs of
           [] \<Rightarrow> [[], []]
         | c' # _ \<Rightarrow> if isLowerAlnum c' then [] # splitNonAlnum cs else splitNonAlnum cs))"

text \<open>\<open>new Set(s.split(...).filter(Boolean))\<close>, as a duplicate-free list.\<close>

definition tokens :: "string \<Rightarrow> string list" where
  "tokens s = remdups (filter (\<lambda>t. t \<noteq> []) (splitNonAlnum s))"

section \<open>Geospatial utilities\<close>

record coordinate =
  lat :: real
  lng :: real

definition toRad :: "real \<Rightarrow> real" where
  "toRad deg = deg * pi / 180"

definition atan2 :: "real \<Rightarrow> real \<Rightarrow> real" where
  "atan2 y x =
     (if 0 < x then arctan (y / x)
      else if x < 0 then (if 0 \<le> y then arctan (y / x) + pi else arctan (y / x) - pi)
      else if 0 < y then pi / 2
      else if y < 0 then - (pi / 2)
      else 0)"

definition haversineKm :: "coordinate \<Rightarrow> coordinate \<Rightarrow> real" where
  "haversineKm a b =
     (let dLat = toRad (lat b - lat a);
          dLng = toRad (lng b - lng a);
          lat1 = toRad (lat a);
          lat2 = toRad (lat b);
          h = (sin (dLat / 2)) ^ 2 + cos lat1 * cos lat2 * (sin (dLng / 2)) ^ 2
      in 2 * 6371 * atan2 (sqrt h) (sqrt (1 - h)))"

section \<open>Energy and community engine\<close>

datatype EnergySource = Solar | Grid | Hybrid

record StationRef =
  stationId :: string
  name :: string
  latitude :: real
  longitude :: real

record OcmStation = StationRef +
  address :: string
  maxPowerKw :: real
  isSolarPowered :: bool
  energySource :: "EnergySource option"
  operatorName :: "string option"

record CommunityRescueVehicle =
  vehicleId :: string
  currentLocation :: coordinate
  routeDirection :: string
  availableBatteryPercent :: real
  supportsReverseCharging :: bool

record ChargingCostBreakdown =
  basePricePerKwh :: real
  effectivePricePerKwh :: real
  discountAppliedPercent :: real
  totalCost :: real

record CostOptions =
  optBasePricePerKwh :: "real option"
  optSolarDiscountPercent :: "real option"
  optHybridDiscountPercent :: "real option"

record RescueMatchInput =
  receiverLocation :: coordinate
  receiverRouteDirection :: string
  vehicles :: "CommunityRescueVehicle list"
  maxDistanceKm :: "real option"
  minimumDonorBatteryPercent :: "real option"

record TransferRange =
  rangeMin :: real
  rangeMax :: real

record 'a RescueSimulationInput =
  receiverCurrentBatteryPercent :: real
  receiverBatteryCapacityKwh :: real
  simReceiverLocation :: coordinate
  rescueCandidates :: "CommunityRescueVehicle list"
  chargingStations :: "'a StationRef_scheme list"
  donorBatteryCapacityKwh :: "real option"
  transferKwhRange :: "TransferRange option"
  donorSafeBatteryFloorPercent :: "real option"
  receiverKmPerKwh :: "real option"
  oneRescuePerTrip :: "bool option"
  alreadyRescuedOnTrip :: "bool option"

record RescueSimulationResult =
  rescueFound :: bool
  donorVehicleId :: "string option"
  transferredEnergyKwh :: real
  emergencyRangeGainedKm :: real
  receiverBatteryAfterPercent :: "real option"
  donorBatteryAfterPercent :: "real option"
  nearestChargerReachable :: bool
  nearestReachableChargerId :: "string option"
  nearestReachableChargerName :: "string option"
  reason :: string

text \<open>\<open>v ?? d\<close>\<close>

fun orElse :: "'a option \<Rightarrow> 'a \<Rightarrow> 'a" where
  "orElse None d = d"
| "orElse (Some v) d = v"

definition SOLAR_KEYWORDS :: "string list" where
  "SOLAR_KEYWORDS =
     [''solar'', ''renewable'', ''green energy'', ''clean energy'', ''sun powered'']"

definition HYBRID_KEYWORDS :: "string list" where
  "HYBRID_KEYWORDS = [''hybrid'', ''mixed energy'', ''solar+grid'']"

definition inferEnergySourceFromText :: "string \<Rightarrow> EnergySource" where
  "inferEnergySourceFromText text =
     (let haystack = toLowerCase text
      in if list_ex (\<lambda>k. includesStr haystack k) HYBRID_KEYWORDS then Hybrid
         else if list_ex (\<lambda>k. includesStr haystack k) SOLAR_KEYWORDS then Solar
         else Grid)"

definition routeSimilarityScore :: "string \<Rightarrow> string \<Rightarrow> real" where
  "routeSimilarityScore routeA routeB =
     (let a = toLowerCase (trim routeA);
          b = toLowerCase (trim routeB)
      in if a = [] \<or> b = [] then 0
         else if a = b then 1
         else if includesStr a b \<or> includesStr b a then 0.75
         else
           (let aTokens = tokens a;
                bTokens = tokens b
            in if length aTokens = 0 \<or> length bTokens = 0 then 0
               else
                 (let overlap = length (filter (\<lambda>token. token \<in> set bTokens) aTokens)
                  in real overlap / real (max (length aTokens) (length bTokens)))))"

definition detectSolarStation ::
  "(string \<rightharpoonup> EnergySource) \<Rightarrow> OcmStation \<Rightarrow> OcmStation" where
  "detectSolarStation manualTags station =
     (let manualEnergySource = manualTags (stationId station);
          inferred = inferEnergySourceFromText
            (name station @ '' '' @ address station @ '' '' @ orElse (operatorName station) []);
          source = (case manualEnergySource of
                      Some m \<Rightarrow> m
                    | None \<Rightarrow> orElse (energySource station) inferred)
      in station\<lparr>energySource := Some source,
                 isSolarPowered := (source = Solar \<or> source = Hybrid)\<rparr>)"

definition detectSolarStations ::
  "OcmStation list \<Rightarrow> (string \<rightharpoonup> EnergySource) \<Rightarrow> OcmStation list" where
  "detectSolarStations stations manualTags = map (detectSolarStation manualTags) stations"

definition calculateSolarDiscountedCost ::
  "jsnumber \<Rightarrow> OcmStation \<Rightarrow> CostOptions option \<Rightarrow> ChargingCostBreakdown" where
  "calculateSolarDiscountedCost energyRequiredKwh station options =
     (let units = max 0 (if isFinite energyRequiredKwh then finiteValue energyRequiredKwh else 0);
          base = orElse (Option.bind options optBasePricePerKwh) 12;
          solarDiscount = orElse (Option.bind options optSolarDiscountPercent) 35;
          hybridDiscount = orElse (Option.bind options optHybridDiscountPercent) 20;
          source = orElse (energySource station) Grid;
          discount = (if source = Solar then solarDiscount
                      else if source = Hybrid then hybridDiscount else 0);
          effective = toFixed 2 (base * (1 - discount / 100));
          total = toFixed 2 (units * effective)
      in \<lparr>basePricePerKwh = base,
          effectivePricePerKwh = effective,
          discountAppliedPercent = discount,
          totalCost = total\<rparr>)"

definition calculateChargingCost :: "jsnumber \<Rightarrow> OcmStation \<Rightarrow> ChargingCostBreakdown" where
  "calculateChargingCost energyRequiredKwh station =
     calculateSolarDiscountedCost energyRequiredKwh station None"

record OutOfChargeDetectionInput =
  batteryPercent :: real
  criticalThresholdPercent :: "real option"
  nearbyStationsCount :: real
  stationRadiusKm :: real

record OutOfChargeDetectionResult =
  isCriticalBattery :: bool
  hasNoNearbyStations :: bool
  shouldTriggerRescue :: bool

definition detectOutOfChargeScenario ::
  "OutOfChargeDetectionInput \<Rightarrow> OutOfChargeDetectionResult" where
  "detectOutOfChargeScenario input =
     (let threshold = orElse (criticalThresholdPercent input) 5;
          critical = (batteryPercent input \<le> threshold);
          noStations = (nearbyStationsCount input \<le> 0)
      in \<lparr>isCriticalBattery = critical,
          hasNoNearbyStations = noStations,
          shouldTriggerRescue = (critical \<and> noStations)\<rparr>)"

record RescueCandidate =
  vehicle :: CommunityRescueVehicle
  distanceKm :: real
  similarity :: real

definition rescueOrder :: "RescueCandidate \<Rightarrow> RescueCandidate \<Rightarrow> real" where
  "rescueOrder a b =
     (if distanceKm a \<noteq> distanceKm b then distanceKm a - distanceKm b
      else availableBatteryPercent (vehicle b) - availableBatteryPercent (vehicle a))"

definition rescueCandidateOf :: "RescueMatchInput \<Rightarrow> CommunityRescueVehicle \<Rightarrow> RescueCandidate" where
  "rescueCandidateOf input v =
     \<lparr>vehicle = v,
      distanceKm = haversineKm (receiverLocation input) (currentLocation v),
      similarity = routeSimilarityScore (receiverRouteDirection input) (routeDirection v)\<rparr>"

definition findNearbyRescueVehicles :: "RescueMatchInput \<Rightarrow> CommunityRescueVehicle list" where
  "findNearbyRescueVehicles input =
     (let maxDistance = orElse (maxDistanceKm input) 8;
          minimumBattery = orElse (minimumDonorBatteryPercent input) 40
      in map vehicle
           (sortBy rescueOrder
              (filter (\<lambda>c. similarity c \<ge> 0.35)
                 (filter (\<lambda>c. distanceKm c \<le> maxDistance)
                    (map (rescueCandidateOf input)
                       (filter (\<lambda>v. availableBatteryPercent v \<ge> minimumBattery)
                          (filter supportsReverseCharging (vehicles input))))))))"

record 'a NearestStation =
  nearStation :: "'a StationRef_scheme"
  nearDistanceKm :: real

definition failedRescue :: "string \<Rightarrow> RescueSimulationResult" where
  "failedRescue why =
     \<lparr>rescueFound = False,
      donorVehicleId = None,
      transferredEnergyKwh = 0,
      emergencyRangeGainedKm = 0,
      receiverBatteryAfterPercent = None,
      donorBatteryAfterPercent = None,
      nearestChargerReachable = False,
      nearestReachableChargerId = None,
      nearestReachableChargerName = None,
      reason = why\<rparr>"

definition simulateReverseCharging :: "'a RescueSimulationInput \<Rightarrow> RescueSimulationResult" where
  "simulateReverseCharging input =
     (if orElse (oneRescuePerTrip input) False \<and> orElse (alreadyRescuedOnTrip input) False
      then failedRescue ''One rescue per trip limit reached''
      else
        (case first (rescueCandidates input) of
           None \<Rightarrow> failedRescue ''No rescue vehicle available''
         | Some donor \<Rightarrow>
            (let donorCapacity = orElse (donorBatteryCapacityKwh input) 70;
                 donorFloor = orElse (donorSafeBatteryFloorPercent input) 25;
                 transferRange = orElse (transferKwhRange input) \<lparr>rangeMin = 5, rangeMax = 10\<rparr>;
                 kmPerKwh = orElse (receiverKmPerKwh input) 4.5;
                 donorCurrentEnergyKwh = (availableBatteryPercent donor / 100) * donorCapacity;
                 donorMinimumEnergyKwh = (donorFloor / 100) * donorCapacity;
                 donorTransferableKwh = max 0 (donorCurrentEnergyKwh - donorMinimumEnergyKwh);
                 transferCandidateKwh = min (rangeMax transferRange) donorTransferableKwh;
                 transferred =
                   (if transferCandidateKwh \<ge> rangeMin transferRange
                    then transferCandidateKwh else 0)
             in if transferred \<le> 0
                then failedRescue ''Donor battery is below safe transfer reserve''
                else
                  (let rangeGained = toFixed 1 (transferred * kmPerKwh);
                       receiverAddedPercent =
                         (transferred / max 1 (receiverBatteryCapacityKwh input)) * 100;
                       receiverAfter =
                         toFixed 1 (min 100 (receiverCurrentBatteryPercent input + receiverAddedPercent));
                       donorAfter =
                         toFixed 1 (((donorCurrentEnergyKwh - transferred) / donorCapacity) * 100);
                       nearest =
                         first (sortBy (\<lambda>a b. nearDistanceKm a - nearDistanceKm b)
                           (map (\<lambda>station.
                                   \<lparr>nearStation = station,
                                    nearDistanceKm =
                                      haversineKm (simReceiverLocation input)
                                        \<lparr>lat = latitude station, lng = longitude station\<rparr>\<rparr>)
                              (chargingStations input)));
                       reachable =
                         (case nearest of
                            None \<Rightarrow> False
                          | Some n \<Rightarrow> nearDistanceKm n \<le> rangeGained)
                   in \<lparr>rescueFound = True,
                       donorVehicleId = Some (vehicleId donor),
                       transferredEnergyKwh = toFixed 2 transferred,
                       emergencyRangeGainedKm = rangeGained,
                       receiverBatteryAfterPercent = Some receiverAfter,
                       donorBatteryAfterPercent = Some donorAfter,
                       nearestChargerReachable = reachable,
                       nearestReachableChargerId =
                         (if reachable then map_option (\<lambda>n. stationId (nearStation n)) nearest
                          else None),
                       nearestReachableChargerName =
                         (if reachable then map_option (\<lambda>n. name (nearStation n)) nearest
                          else None),
                       reason =
                         (if reachable then ''Rescue successful and a charger is reachable''
                          else ''Rescue provided emergency range, but nearest charger is still out of range'')\<rparr>))))"

text \<open>
  The local \<open>transferredEnergyKwh\<close> of \<open>simulateReverseCharging\<close> for a given donor,
  before the result rounds it to two decimals.
\<close>

definition plannedTransferKwh :: "'a RescueSimulationInput \<Rightarrow> CommunityRescueVehicle \<Rightarrow> real" where
  "plannedTransferKwh input donor =
     (let donorCapacity = orElse (donorBatteryCapacityKwh input) 70;
          donorFloor = orElse (donorSafeBatteryFloorPercent input) 25;
          transferRange = orElse (transferKwhRange input) \<lparr>rangeMin = 5, rangeMax = 10\<rparr>;
          donorCurrentEnergyKwh = (availableBatteryPercent donor / 100) * donorCapacity;
          donorMinimumEnergyKwh = (donorFloor / 100) * donorCapacity;
          donorTransferableKwh = max 0 (donorCurrentEnergyKwh - donorMinimumEnergyKwh);
          transferCandidateKwh = min (rangeMax transferRange) donorTransferableKwh
      in if transferCandidateKwh \<ge> rangeMin transferRange then transferCandidateKwh else 0)"

section \<open>Trip planner\<close>

subsection \<open>Constants and data\<close>

definition MIN_FAST_CHARGER_KW :: real where "MIN_FAST_CHARGER_KW = 50"
definition CHARGER_SEARCH_RADIUS_KM :: real where "CHARGER_SEARCH_RADIUS_KM = 20"
definition RANGE_BUFFER_FACTOR :: real where "RANGE_BUFFER_FACTOR = 0.9"
definition MIN_SOLAR_DETOUR_WINDOW_KM :: real where "MIN_SOLAR_DETOUR_WINDOW_KM = 2"
definition DEFAULT_RECEIVER_BATTERY_KWH :: real where "DEFAULT_RECEIVER_BATTERY_KWH = 60"
definition DEFAULT_EFFICIENCY_KM_PER_KWH :: real where "DEFAULT_EFFICIENCY_KM_PER_KWH = 4.5"

record PlannedChargingStop =
  stopId :: string
  stopName :: string
  stopAddress :: string
  stopLatitude :: real
  stopLongitude :: real
  powerKw :: real
  distanceFromRouteKm :: real
  distanceFromStartKm :: real
  isFastCharger :: bool
  isSolarPreferred :: bool
  stopEnergySource :: "EnergySource option"
  estimatedChargingCostInr :: real
  estimatedUnitPriceInr :: real
  discountPercent :: real

record CommunityRescueSummary =
  enabled :: bool
  triggered :: bool
  summaryRescueFound :: bool
  summaryDonorVehicleId :: "string option"
  summaryTransferredEnergyKwh :: real
  summaryEmergencyRangeGainedKm :: real
  summaryNearestChargerReachable :: bool
  summaryNearestReachableChargerName :: "string option"
  summaryReason :: string

record RoutePlanResult =
  start :: string
  destination :: string
  startCoordinate :: coordinate
  destinationCoordinate :: coordinate
  totalDistanceKm :: real
  usableRangeKm :: real
  planningLegRangeKm :: real
  requiresCharging :: bool
  chargingStopsRequired :: nat
  chargingStops :: "PlannedChargingStop list"
  message :: string
  routeGeometry :: "coordinate list"
  communityRescue :: CommunityRescueSummary
  estimatedTotal :: real
  consumptionPerKm :: real
  mapRoute :: "coordinate list"
  mapStops :: "coordinate list"
  sustainabilityScore :: real
  co2SavingsKg :: real

record TripParams =
  startLocation :: string
  tripDestination :: string
  evMaxRangeKm :: real
  currentBatteryPercent :: real
  enableCommunityRescue :: "bool option"
  communityVehicles :: "CommunityRescueVehicle list option"

datatype PlannerErrorCode =
  MISSING_ORS_KEY | INVALID_LOCATION | ROUTE_NOT_FOUND | NO_CHARGERS_FOUND | NETWORK_ERROR | UNKNOWN

text \<open>
  What a call inside \<open>planEvTrip\<close> can throw: a \<open>TripPlannerError\<close> with its code, or
  another \<open>Error\<close> (a failed \<open>fetch\<close>, an unparseable body, an \<open>OpenChargeMapError\<close>).
\<close>

datatype thrown = Planner PlannerErrorCode | OtherError

subsection \<open>The remote services and the caches\<close>

text \<open>
  The two providers are outside the program. A reply of the geocoder is a failed
  request, a response that is not OK, a body that is not JSON, or a payload with the
  \<open>[longitude, latitude]\<close> pair of its first feature if it has one. A reply of the
  directions endpoint carries the raw geometry and the distance in metres of the first
  segment, each if present. The station directory answers with the normalised stations
  or fails.
\<close>

datatype GeocodeReply =
  GeocodeFetchFailed | GeocodeNotOk | GeocodeBadJson | GeocodePayload "(real \<times> real) option"

datatype DirectionsReply =
  DirectionsFetchFailed | DirectionsNotOk | DirectionsBadJson
  | DirectionsPayload "(real \<times> real) list option" "real option"

record Services =
  orsApiKey :: "string option"
  geocodeSearch :: "string \<Rightarrow> GeocodeReply"
  directions :: "coordinate \<Rightarrow> coordinate \<Rightarrow> DirectionsReply"
  fetchNearbyChargingStations :: "coordinate \<Rightarrow> OcmStation list option"

record RouteInfo =
  routeDistanceKm :: real
  geometry :: "coordinate list"

text \<open>
  The text of \<open>x.toFixed(d)\<close>, as far as a cache key depends on it: the sign it prints
  and the rounded magnitude.
\<close>

definition toFixedText :: "nat \<Rightarrow> real \<Rightarrow> bool \<times> real" where
  "toFixedText d x = (x < 0, roundMag d \<bar>x\<bar>)"

type_synonym routeKey = "((bool \<times> real) \<times> (bool \<times> real)) \<times> ((bool \<times> real) \<times> (bool \<times> real))"
type_synonym chargerKey = "(bool \<times> real) \<times> (bool \<times> real)"

record Caches =
  geocodeCache :: "string \<rightharpoonup> coordinate"
  routeCache :: "routeKey \<rightharpoonup> RouteInfo"
  chargerCache :: "chargerKey \<rightharpoonup> OcmStation list"

definition missingKey :: "string option \<Rightarrow> bool" where
  "missingKey key = (case key of None \<Rightarrow> True | Some k \<Rightarrow> k = [])"

definition toCoordinate :: "real \<times> real \<Rightarrow> coordinate" where
  "toCoordinate v = \<lparr>lat = snd v, lng = fst v\<rparr>"

definition maxPowerKwOf :: "OcmStation \<Rightarrow> real" where
  "maxPowerKwOf station = (if maxPowerKw station = 0 then 0 else maxPowerKw station)"

definition geocodeCity :: "Services \<Rightarrow> string \<Rightarrow> Caches \<Rightarrow> (thrown + coordinate) \<times> Caches" where
  "geocodeCity sv cityName st =
     (let normalized = toLowerCase (trim cityName)
      in if normalized = [] then (Inl (Planner INVALID_LOCATION), st)
         else
           (case geocodeCache st normalized of
              Some cached \<Rightarrow> (Inr cached, st)
            | None \<Rightarrow>
               if missingKey (orsApiKey sv) then (Inl (Planner MISSING_ORS_KEY), st)
               else
                 (case geocodeSearch sv (trim cityName) of
                    GeocodeFetchFailed \<Rightarrow> (Inl OtherError, st)
                  | GeocodeNotOk \<Rightarrow> (Inl (Planner NETWORK_ERROR), st)
                  | GeocodeBadJson \<Rightarrow> (Inl OtherError, st)
                  | GeocodePayload None \<Rightarrow> (Inl (Planner INVALID_LOCATION), st)
                  | GeocodePayload (Some v) \<Rightarrow>
                      (let result = toCoordinate v
                       in (Inr result,
                           st\<lparr>geocodeCache := (geocodeCache st)(normalized \<mapsto> result)\<rparr>)))))"

definition getRouteDistance :: "Services \<Rightarrow> real \<times> real \<Rightarrow> real \<times> real \<Rightarrow> thrown + RouteInfo" where
  "getRouteDistance sv startPair endPair =
     (if missingKey (orsApiKey sv) then Inl (Planner MISSING_ORS_KEY)
      else
        (case directions sv \<lparr>lat = fst startPair, lng = snd startPair\<rparr>
                \<lparr>lat = fst endPair, lng = snd endPair\<rparr> of
           DirectionsFetchFailed \<Rightarrow> Inl OtherError
         | DirectionsNotOk \<Rightarrow> Inl (Planner NETWORK_ERROR)
         | DirectionsBadJson \<Rightarrow> Inl OtherError
         | DirectionsPayload rawGeometry distanceMeters \<Rightarrow>
             (case rawGeometry of
                None \<Rightarrow> Inl (Planner ROUTE_NOT_FOUND)
              | Some raw \<Rightarrow>
                 if length raw < 2 then Inl (Planner ROUTE_NOT_FOUND)
                 else
                   (case distanceMeters of
                      None \<Rightarrow> Inl (Planner ROUTE_NOT_FOUND)
                    | Some m \<Rightarrow>
                       if m = 0 then Inl (Planner ROUTE_NOT_FOUND)
                       else Inr \<lparr>routeDistanceKm = toFixed 2 (m / 1000),
                                 geometry = map toCoordinate raw\<rparr>))))"

definition fetchRoute ::
  "Services \<Rightarrow> coordinate \<Rightarrow> coordinate \<Rightarrow> Caches \<Rightarrow> (thrown + RouteInfo) \<times> Caches" where
  "fetchRoute sv startC destC st =
     (let cacheKey = ((toFixedText 5 (lat startC), toFixedText 5 (lng startC)),
                      (toFixedText 5 (lat destC), toFixedText 5 (lng destC)))
      in case routeCache st cacheKey of
           Some cached \<Rightarrow> (Inr cached, st)
         | None \<Rightarrow>
            if missingKey (orsApiKey sv) then (Inl (Planner MISSING_ORS_KEY), st)
            else
              (case getRouteDistance sv (lat startC, lng startC) (lat destC, lng destC) of
                 Inl e \<Rightarrow> (Inl e, st)
               | Inr result \<Rightarrow>
                   (Inr result, st\<lparr>routeCache := (routeCache st)(cacheKey \<mapsto> result)\<rparr>)))"

definition fetchChargersNearPoint ::
  "Services \<Rightarrow> coordinate \<Rightarrow> Caches \<Rightarrow> (thrown + OcmStation list) \<times> Caches" where
  "fetchChargersNearPoint sv point st =
     (let cacheKey = (toFixedText 3 (lat point), toFixedText 3 (lng point))
      in case chargerCache st cacheKey of
           Some cached \<Rightarrow> (Inr cached, st)
         | None \<Rightarrow>
            (case fetchNearbyChargingStations sv point of
               None \<Rightarrow> (Inl OtherError, st)
             | Some stations \<Rightarrow>
                 (let solarAwareStations = detectSolarStations stations Map.empty
                  in (Inr solarAwareStations,
                      st\<lparr>chargerCache := (chargerCache st)(cacheKey \<mapsto> solarAwareStations)\<rparr>))))"

subsection \<open>Points along the route\<close>

text \<open>
  The loop of \<open>pointAtDistanceAlongRoute\<close> from the segment that starts at \<open>segStart\<close>,
  with \<open>covered\<close> kilometres behind it. When no segment is left, \<open>segStart\<close> is the last
  point of the route.
\<close>

fun walkRoute :: "real \<Rightarrow> real \<Rightarrow> coordinate \<Rightarrow> coordinate list \<Rightarrow> coordinate" where
  "walkRoute targetDistanceKm covered segStart [] = segStart"
| "walkRoute targetDistanceKm covered segStart (segEnd # rest) =
     (let segDistance = haversineKm segStart segEnd
      in if covered + segDistance \<ge> targetDistanceKm then
           (let ratio = (if segDistance = 0 then 0
                         else (targetDistanceKm - covered) / segDistance)
            in \<lparr>lat = lat segStart + (lat segEnd - lat segStart) * ratio,
                lng = lng segStart + (lng segEnd - lng segStart) * ratio\<rparr>)
         else walkRoute targetDistanceKm (covered + segDistance) segEnd rest)"

definition pointAtDistanceAlongRoute :: "coordinate list \<Rightarrow> real \<Rightarrow> coordinate" where
  "pointAtDistanceAlongRoute route targetDistanceKm =
     (case route of
        [] \<Rightarrow> \<lparr>lat = 0, lng = 0\<rparr>
      | p # ps \<Rightarrow> if targetDistanceKm \<le> 0 then p else walkRoute targetDistanceKm 0 p ps)"

text \<open>The elements at the indices \<open>0, step, 2 * step, ...\<close> of a list.\<close>

function everyNth :: "nat \<Rightarrow> 'a list \<Rightarrow> 'a list" where
  "everyNth step [] = []"
| "everyNth step (x # xs) = x # everyNth step (drop (step - 1) xs)"
  by pat_completeness auto
termination
  by (relation "measure (\<lambda>(step, xs). length xs)") auto

text \<open>
  \<open>Math.min\<close> over the elements of a list. Of no numbers it is \<open>Infinity\<close>; the source
  never takes it of an empty list, and the value given here for one is not used.
\<close>

fun minOf :: "real list \<Rightarrow> real" where
  "minOf [] = 0"
| "minOf (x # xs) = fold min xs x"

definition minDistanceToRouteKm :: "coordinate \<Rightarrow> coordinate list \<Rightarrow> real" where
  "minDistanceToRouteKm point route =
     (if length route = 0 then 0
      else
        (let sampleStep = max 1 (length route div 120)
         in toFixed 2 (minOf (map (haversineKm point) (everyNth sampleStep route)))))"

subsection \<open>Stop selection\<close>

record StopCandidate =
  candStation :: OcmStation
  candPower :: real
  candSolar :: bool
  candDistanceFromRouteKm :: real

record RankedCandidate = StopCandidate +
  solarWithMinimalDetour :: bool

definition stopCandidateOf :: "coordinate list \<Rightarrow> OcmStation \<Rightarrow> StopCandidate" where
  "stopCandidateOf route station =
     \<lparr>candStation = station,
      candPower = maxPowerKwOf station,
      candSolar = isSolarPowered station,
      candDistanceFromRouteKm =
        minDistanceToRouteKm \<lparr>lat = latitude station, lng = longitude station\<rparr> route\<rparr>"

definition rankCandidate :: "real \<Rightarrow> StopCandidate \<Rightarrow> RankedCandidate" where
  "rankCandidate minDistanceInPool candidate =
     \<lparr>candStation = candStation candidate,
      candPower = candPower candidate,
      candSolar = candSolar candidate,
      candDistanceFromRouteKm = candDistanceFromRouteKm candidate,
      solarWithMinimalDetour =
        (candSolar candidate \<and>
         candDistanceFromRouteKm candidate \<le> minDistanceInPool + MIN_SOLAR_DETOUR_WINDOW_KM)\<rparr>"

definition stopOrder :: "RankedCandidate \<Rightarrow> RankedCandidate \<Rightarrow> real" where
  "stopOrder a b =
     (if solarWithMinimalDetour a \<noteq> solarWithMinimalDetour b then
        (if solarWithMinimalDetour a then - 1 else 1)
      else if candDistanceFromRouteKm a \<noteq> candDistanceFromRouteKm b then
        candDistanceFromRouteKm a - candDistanceFromRouteKm b
      else candPower b - candPower a)"

definition plannedStopOf :: "real \<Rightarrow> real \<Rightarrow> RankedCandidate \<Rightarrow> PlannedChargingStop" where
  "plannedStopOf distanceFromStart energyRequiredKwh picked =
     (let chargingCost = calculateChargingCost (Finite energyRequiredKwh) (candStation picked)
      in \<lparr>stopId = stationId (candStation picked),
          stopName = name (candStation picked),
          stopAddress = address (candStation picked),
          stopLatitude = latitude (candStation picked),
          stopLongitude = longitude (candStation picked),
          powerKw = candPower picked,
          distanceFromRouteKm = candDistanceFromRouteKm picked,
          distanceFromStartKm = toFixed 1 distanceFromStart,
          isFastCharger = (candPower picked \<ge> MIN_FAST_CHARGER_KW),
          isSolarPreferred = solarWithMinimalDetour picked,
          stopEnergySource = energySource (candStation picked),
          estimatedChargingCostInr = totalCost chargingCost,
          estimatedUnitPriceInr = effectivePricePerKwh chargingCost,
          discountPercent = discountAppliedPercent chargingCost\<rparr>)"

text \<open>
  \<open>chooseBestStop\<close> returns the stop (or \<open>null\<close>) and leaves the picked id in
  \<open>selectedIds\<close>; the model returns the set together with the stop.
\<close>

definition chooseBestStop ::
  "Services \<Rightarrow> coordinate \<Rightarrow> coordinate list \<Rightarrow> real \<Rightarrow> real \<Rightarrow> string set \<Rightarrow> Caches
     \<Rightarrow> (thrown + PlannedChargingStop option \<times> string set) \<times> Caches" where
  "chooseBestStop sv point route distanceFromStart energyRequiredKwh selectedIds st =
     (case fetchChargersNearPoint sv point st of
        (Inl e, st') \<Rightarrow> (Inl e, st')
      | (Inr nearby, st') \<Rightarrow>
         if length nearby = 0 then (Inr (None, selectedIds), st')
         else
           (let available =
                  map (stopCandidateOf route)
                    (filter (\<lambda>station. stationId station \<notin> selectedIds) nearby)
            in if length available = 0 then (Inr (None, selectedIds), st')
               else
                 (let fastCandidates =
                        filter (\<lambda>candidate. candPower candidate \<ge> MIN_FAST_CHARGER_KW) available;
                      pool = (if length fastCandidates > 0 then fastCandidates else available);
                      minDistanceInPool = minOf (map candDistanceFromRouteKm pool);
                      ranked = sortBy stopOrder (map (rankCandidate minDistanceInPool) pool)
                  in case first ranked of
                       None \<Rightarrow> (Inr (None, selectedIds), st')
                     | Some picked \<Rightarrow>
                         (Inr (Some (plannedStopOf distanceFromStart energyRequiredKwh picked),
                               insert (stationId (candStation picked)) selectedIds),
                          st'))))"

subsection \<open>Planning a trip\<close>

definition createSimulatedCommunityVehicles :: "coordinate \<Rightarrow> CommunityRescueVehicle list" where
  "createSimulatedCommunityVehicles routePoint =
     [\<lparr>vehicleId = ''EV-COMM-101'',
       currentLocation = \<lparr>lat = lat routePoint + 0.018, lng = lng routePoint - 0.012\<rparr>,
       routeDirection = ''same corridor outbound'',
       availableBatteryPercent = 62,
       supportsReverseCharging = True\<rparr>,
      \<lparr>vehicleId = ''EV-COMM-202'',
       currentLocation = \<lparr>lat = lat routePoint - 0.026, lng = lng routePoint + 0.01\<rparr>,
       routeDirection = ''nearby local route'',
       availableBatteryPercent = 48,
       supportsReverseCharging = True\<rparr>,
      \<lparr>vehicleId = ''EV-COMM-303'',
       currentLocation = \<lparr>lat = lat routePoint + 0.08, lng = lng routePoint + 0.05\<rparr>,
       routeDirection = ''different route'',
       availableBatteryPercent = 72,
       supportsReverseCharging = False\<rparr>]"

definition calculateUsableRangeKm :: "real \<Rightarrow> real \<Rightarrow> real" where
  "calculateUsableRangeKm evMaxRange currentBattery =
     (let safeBattery = min (max currentBattery 0) 100;
          safeRange = max evMaxRange 0
      in toFixed 2 ((safeBattery / 100) * safeRange))"

definition rescueNotUsed :: "TripParams \<Rightarrow> string \<Rightarrow> CommunityRescueSummary" where
  "rescueNotUsed params why =
     \<lparr>enabled = (enableCommunityRescue params \<noteq> Some False),
      triggered = False,
      summaryRescueFound = False,
      summaryDonorVehicleId = None,
      summaryTransferredEnergyKwh = 0,
      summaryEmergencyRangeGainedKm = 0,
      summaryNearestChargerReachable = False,
      summaryNearestReachableChargerName = None,
      summaryReason = why\<rparr>"

text \<open>
  The segmentation loop of \<open>planEvTrip\<close> from leg boundary \<open>i\<close> on. It ends with the
  stops and the rescue details, by running past \<open>stopsNeeded\<close> or by the \<open>break\<close>
  after a successful rescue, or with what was thrown.
\<close>

function planLegs ::
  "Services \<Rightarrow> TripParams \<Rightarrow> RouteInfo \<Rightarrow> real \<Rightarrow> real \<Rightarrow> int \<Rightarrow> int
     \<Rightarrow> PlannedChargingStop list \<Rightarrow> string set \<Rightarrow> CommunityRescueSummary \<Rightarrow> Caches
     \<Rightarrow> (thrown + PlannedChargingStop list \<times> CommunityRescueSummary) \<times> Caches" where
  "planLegs sv params route legRange consumption stopsNeeded i stops selectedIds rescueDetails st =
     (if i \<le> stopsNeeded then
        (let distanceFromStart = legRange * real_of_int i;
             routePoint = pointAtDistanceAlongRoute (geometry route) distanceFromStart;
             energyRequiredForLegKwh = toFixed 2 (legRange * consumption)
         in case chooseBestStop sv routePoint (geometry route) distanceFromStart
                   energyRequiredForLegKwh selectedIds st of
              (Inl e, st1) \<Rightarrow> (Inl e, st1)
            | (Inr (Some stop, selectedIds1), st1) \<Rightarrow>
                planLegs sv params route legRange consumption stopsNeeded (i + 1)
                  (stops @ [stop]) selectedIds1 rescueDetails st1
            | (Inr (None, selectedIds1), st1) \<Rightarrow>
                (let scenario = detectOutOfChargeScenario
                       \<lparr>batteryPercent = currentBatteryPercent params,
                        criticalThresholdPercent = Some 5,
                        nearbyStationsCount = 0,
                        stationRadiusKm = CHARGER_SEARCH_RADIUS_KM\<rparr>
                 in if shouldTriggerRescue scenario \<and> enableCommunityRescue params \<noteq> Some False
                    then
                      (let fallbackVehicles =
                             orElse (communityVehicles params)
                               (createSimulatedCommunityVehicles routePoint);
                           matchedRescueVehicles = findNearbyRescueVehicles
                             \<lparr>receiverLocation = routePoint,
                              receiverRouteDirection =
                                startLocation params @ ''-'' @ tripDestination params,
                              vehicles = fallbackVehicles,
                              maxDistanceKm = Some 10,
                              minimumDonorBatteryPercent = Some 40\<rparr>
                       in case fetchChargersNearPoint sv routePoint st1 of
                            (Inl e, st2) \<Rightarrow> (Inl e, st2)
                          | (Inr localStations, st2) \<Rightarrow>
                             (let rescueSimulation = simulateReverseCharging
                                    \<lparr>receiverCurrentBatteryPercent = currentBatteryPercent params,
                                     receiverBatteryCapacityKwh = DEFAULT_RECEIVER_BATTERY_KWH,
                                     simReceiverLocation = routePoint,
                                     rescueCandidates = matchedRescueVehicles,
                                     chargingStations = localStations,
                                     donorBatteryCapacityKwh = Some 70,
                                     transferKwhRange = Some \<lparr>rangeMin = 5, rangeMax = 10\<rparr>,
                                     donorSafeBatteryFloorPercent = Some 25,
                                     receiverKmPerKwh = Some DEFAULT_EFFICIENCY_KM_PER_KWH,
                                     oneRescuePerTrip = Some True,
                                     alreadyRescuedOnTrip = Some False\<rparr>;
                                  rescueDetails1 =
                                    \<lparr>enabled = True,
                                     triggered = True,
                                     summaryRescueFound = rescueFound rescueSimulation,
                                     summaryDonorVehicleId = donorVehicleId rescueSimulation,
                                     summaryTransferredEnergyKwh = transferredEnergyKwh rescueSimulation,
                                     summaryEmergencyRangeGainedKm = emergencyRangeGainedKm rescueSimulation,
                                     summaryNearestChargerReachable = nearestChargerReachable rescueSimulation,
                                     summaryNearestReachableChargerName =
                                       nearestReachableChargerName rescueSimulation,
                                     summaryReason = reason rescueSimulation\<rparr>
                              in if rescueFound rescueSimulation
                                 then (Inr (stops, rescueDetails1), st2)
                                 else (Inl (Planner NO_CHARGERS_FOUND), st2)))
                    else (Inl (Planner NO_CHARGERS_FOUND), st1)))
      else (Inr (stops, rescueDetails), st))"
  by pat_completeness auto
termination
  by (relation "measure (\<lambda>(sv, params, route, legRange, consumption, stopsNeeded, i, rest).
        nat (stopsNeeded + 1 - i))") auto

text \<open>The \<open>catch\<close> of \<open>planEvTrip\<close>: every failure leaves as a \<open>TripPlannerError\<close>.\<close>

fun rethrown :: "thrown \<Rightarrow> PlannerErrorCode" where
  "rethrown (Planner code) = code"
| "rethrown OtherError = NETWORK_ERROR"

definition planEvTrip ::
  "Services \<Rightarrow> TripParams \<Rightarrow> Caches \<Rightarrow> (PlannerErrorCode + RoutePlanResult) \<times> Caches" where
  "planEvTrip sv params st =
     (case geocodeCity sv (startLocation params) st of
        (Inl e, st1) \<Rightarrow> (Inl (rethrown e), st1)
      | (Inr startC, st1) \<Rightarrow>
     (case geocodeCity sv (tripDestination params) st1 of
        (Inl e, st2) \<Rightarrow> (Inl (rethrown e), st2)
      | (Inr destC, st2) \<Rightarrow>
     (case fetchRoute sv startC destC st2 of
        (Inl e, st3) \<Rightarrow> (Inl (rethrown e), st3)
      | (Inr route, st3) \<Rightarrow>
         (let usableRange = calculateUsableRangeKm (evMaxRangeKm params) (currentBatteryPercent params);
              legRange = toFixed 2 (usableRange * RANGE_BUFFER_FACTOR);
              estimatedConsumptionKwhPerKm = toFixed 3 (1 / DEFAULT_EFFICIENCY_KM_PER_KWH)
          in if routeDistanceKm route \<le> usableRange then
               (Inr \<lparr>start = startLocation params,
                     destination = tripDestination params,
                     startCoordinate = startC,
                     destinationCoordinate = destC,
                     totalDistanceKm = routeDistanceKm route,
                     usableRangeKm = usableRange,
                     planningLegRangeKm = legRange,
                     requiresCharging = False,
                     chargingStopsRequired = 0,
                     chargingStops = [],
                     message = ''You can reach your destination without charging.'',
                     routeGeometry = geometry route,
                     communityRescue =
                       rescueNotUsed params ''Trip can be completed without rescue support.'',
                     estimatedTotal = 0,
                     consumptionPerKm = toFixed 4 (1 / max (evMaxRangeKm params) 1),
                     mapRoute = geometry route,
                     mapStops = [],
                     sustainabilityScore = 100,
                     co2SavingsKg = 0\<rparr>, st3)
             else if legRange \<le> 0 then (Inl ROUTE_NOT_FOUND, st3)
             else
               (let stopsNeeded = \<lceil>routeDistanceKm route / legRange\<rceil> - 1
                in case planLegs sv params route legRange estimatedConsumptionKwhPerKm
                          stopsNeeded 1 [] {} (rescueNotUsed params ''Rescue mode not required.'') st3 of
                     (Inl e, st4) \<Rightarrow> (Inl (rethrown e), st4)
                   | (Inr (stops, rescueDetails), st4) \<Rightarrow>
                      (let estimatedTotalCost =
                             toFixed 2 (foldl (\<lambda>sum stop. sum + estimatedChargingCostInr stop) 0 stops);
                           solarStopCount =
                             length (filter (\<lambda>stop. stopEnergySource stop \<noteq> Some Grid) stops);
                           solarRatio = (if length stops > 0
                                         then real solarStopCount / real (length stops) else 0);
                           score = toFixed 1 (min 100 (50 + solarRatio * 50));
                           estimatedCo2SavingsKg = toFixed 2 (real solarStopCount * 1.4)
                       in (Inr \<lparr>start = startLocation params,
                                destination = tripDestination params,
                                startCoordinate = startC,
                                destinationCoordinate = destC,
                                totalDistanceKm = routeDistanceKm route,
                                usableRangeKm = usableRange,
                                planningLegRangeKm = legRange,
                                requiresCharging = True,
                                chargingStopsRequired = length stops,
                                chargingStops = stops,
                                message = ''Charging stops planned successfully.'',
                                routeGeometry = geometry route,
                                communityRescue = rescueDetails,
                                estimatedTotal = estimatedTotalCost,
                                consumptionPerKm = toFixed 4 (1 / max (evMaxRangeKm params) 1),
                                mapRoute = geometry route,
                                mapStops =
                                  map (\<lambda>stop. \<lparr>lat = stopLatitude stop, lng = stopLongitude stop\<rparr>) stops,
                                sustainabilityScore = score,
                                co2SavingsKg = estimatedCo2SavingsKg\<rparr>, st4)))))))"

text \<open>
  The locals \<open>available\<close>, \<open>pool\<close> and \<open>ranked\<close> of \<open>chooseBestStop\<close>, as functions
  of the stations found near the point.
\<close>

definition availableCandidates :: "coordinate list \<Rightarrow> string set \<Rightarrow> OcmStation list \<Rightarrow> StopCandidate list" where
  "availableCandidates route selectedIds nearby =
     map (stopCandidateOf route) (filter (\<lambda>station. stationId station \<notin> selectedIds) nearby)"

definition chosenPool :: "StopCandidate list \<Rightarrow> StopCandidate list" where
  "chosenPool available =
     (if \<exists>c \<in> set available. MIN_FAST_CHARGER_KW \<le> candPower c
      then filter (\<lambda>c. MIN_FAST_CHARGER_KW \<le> candPower c) available
      else available)"

definition rankedPool :: "StopCandidate list \<Rightarrow> RankedCandidate list" where
  "rankedPool pool =
     sortBy stopOrder (map (rankCandidate (minOf (map candDistanceFromRouteKm pool))) pool)"

subsection \<open>Specification-level notions\<close>

text \<open>
  The tokens of a string as the specification describes them: the non-empty runs of
  characters of \<open>[a-z0-9]\<close> that cannot be extended on either side.
\<close>

definition tokenSet :: "string \<Rightarrow> string set" where
  "tokenSet s =
     {t. t \<noteq> [] \<and> list_all isLowerAlnum t \<and>
         (\<exists>p q. s = p @ t @ q \<and>
            (p = [] \<or> \<not> isLowerAlnum (last p)) \<and>
            (q = [] \<or> \<not> isLowerAlnum (hd q)))}"

text \<open>
  The route-similarity score in the words of the specification, with the empty-string
  guard of the source put first: containment as the existence of a surrounding prefix
  and suffix, the tokens as sets, the overlap as the size of their intersection.
\<close>

definition similaritySpec :: "string \<Rightarrow> string \<Rightarrow> real" where
  "similaritySpec routeA routeB =
     (let a = toLowerCase (trim routeA);
          b = toLowerCase (trim routeB);
          A = tokenSet a;
          B = tokenSet b
      in if a = [] \<or> b = [] then 0
         else if a = b then 1
         else if (\<exists>p s. a = p @ b @ s) \<or> (\<exists>p s. b = p @ a @ s) then 3 / 4
         else if A = {} \<or> B = {} then 0
         else real (card (A \<inter> B)) / real (max (card A) (card B)))"

text \<open>
  The order of the returned donors: nearer to the receiver first, and on equal distance
  the fuller battery first.
\<close>

definition nearerDonor :: "coordinate \<Rightarrow> CommunityRescueVehicle \<Rightarrow> CommunityRescueVehicle \<Rightarrow> bool" where
  "nearerDonor receiver a b \<longleftrightarrow>
     haversineKm receiver (currentLocation a) < haversineKm receiver (currentLocation b) \<or>
     (haversineKm receiver (currentLocation a) = haversineKm receiver (currentLocation b) \<and>
      availableBatteryPercent b \<le> availableBatteryPercent a)"


text \<open>The length of a polyline, and the point a given fraction of the way along a segment.\<close>

fun routeLength :: "coordinate list \<Rightarrow> real" where
  "routeLength [] = 0"
| "routeLength [a] = 0"
| "routeLength (a # b # rest) = haversineKm a b + routeLength (b # rest)"


subsection \<open>Sample calls\<close>

definition sampleDonor :: "real \<Rightarrow> CommunityRescueVehicle" where
  "sampleDonor percent =
     \<lparr>vehicleId = ''EV-COMM-101'',
      currentLocation = \<lparr>lat = 0, lng = 0\<rparr>,
      routeDirection = ''same corridor outbound'',
      availableBatteryPercent = percent,
      supportsReverseCharging = True\<rparr>"

text \<open>A donor at 90 percent, a receiver at 10 percent of a 60 kWh pack, every option left out.\<close>

definition sampleRescueInput :: "unit RescueSimulationInput" where
  "sampleRescueInput =
     \<lparr>receiverCurrentBatteryPercent = 10,
      receiverBatteryCapacityKwh = 60,
      simReceiverLocation = \<lparr>lat = 0, lng = 0\<rparr>,
      rescueCandidates = [sampleDonor 90],
      chargingStations = [],
      donorBatteryCapacityKwh = None,
      transferKwhRange = None,
      donorSafeBatteryFloorPercent = None,
      receiverKmPerKwh = None,
      oneRescuePerTrip = None,
      alreadyRescuedOnTrip = None\<rparr>"

text \<open>
  Three vehicles at the receiver's position on the receiver's route; the third cannot
  charge in reverse.
\<close>

definition sampleMatchInput :: RescueMatchInput where
  "sampleMatchInput =
     \<lparr>receiverLocation = \<lparr>lat = 0, lng = 0\<rparr>,
      receiverRouteDirection = ''Same corridor outbound '',
      vehicles = [sampleDonor 48, sampleDonor 62,
                  (sampleDonor 72)\<lparr>supportsReverseCharging := False\<rparr>],
      maxDistanceKm = None,
      minimumDonorBatteryPercent = None\<rparr>"

definition sampleStation :: "EnergySource \<Rightarrow> OcmStation" where
  "sampleStation source =
     \<lparr>stationId = ''101'',
      name = ''Highway Charging Hub'',
      latitude = 0,
      longitude = 0,
      address = ''NH 48'',
      maxPowerKw = 60,
      isSolarPowered = (source \<noteq> Grid),
      energySource = Some source,
      operatorName = None\<rparr>"

definition baseTariffOnly :: "real \<Rightarrow> CostOptions option" where
  "baseTariffOnly b =
     Some \<lparr>optBasePricePerKwh = Some b,
           optSolarDiscountPercent = None,
           optHybridDiscountPercent = None\<rparr>"

text \<open>
  A planning call: both places resolve to the origin, the route found has the given
  length in metres and a geometry that stays at the origin, and the directory returns the
  given stations.
\<close>

definition sampleServices :: "real \<Rightarrow> OcmStation list \<Rightarrow> Services" where
  "sampleServices metres stations =
     \<lparr>orsApiKey = Some ''key'',
      geocodeSearch = (\<lambda>text. GeocodePayload (Some (0, 0))),
      directions = (\<lambda>a b. DirectionsPayload (Some [(0, 0), (0, 0)]) (Some metres)),
      fetchNearbyChargingStations = (\<lambda>point. Some stations)\<rparr>"

definition sampleTrip :: TripParams where
  "sampleTrip =
     \<lparr>startLocation = ''Jaipur'',
      tripDestination = ''Ajmer'',
      evMaxRangeKm = 300,
      currentBatteryPercent = 80,
      enableCommunityRescue = None,
      communityVehicles = None\<rparr>"

definition emptyCaches :: Caches where
  "emptyCaches = \<lparr>geocodeCache = Map.empty, routeCache = Map.empty, chargerCache = Map.empty\<rparr>"

section \<open>Rounding and sorting facts\<close>

lemma toFixed_nonneg_eq: "0 \<le> x \<Longrightarrow> toFixed d x = roundMag d x"
  by (cases "x = 0") (simp_all add: toFixed_def roundMag_def)

lemma toFixed_neg_eq: "x < 0 \<Longrightarrow> toFixed d x = - roundMag d (- x)"
  by (simp add: toFixed_def roundMag_def)

lemma roundMag_nonneg: "0 \<le> a \<Longrightarrow> 0 \<le> roundMag d a"
  by (simp add: roundMag_def)

lemma roundMag_mono:
  assumes "0 \<le> a" "a \<le> b"
  shows "roundMag d a \<le> roundMag d b"
proof (cases "(10::real) ^ 21 \<le> a")
  case True
  with assms show ?thesis by (simp add: roundMag_def)
next
  case small: False
  show ?thesis
  proof (cases "(10::real) ^ 21 \<le> b")
    case False
    have "\<lfloor>a * 10 ^ d + 1 / 2\<rfloor> \<le> \<lfloor>b * 10 ^ d + 1 / 2\<rfloor>"
      using assms by (intro floor_mono) (simp add: mult_right_mono)
    then have "real_of_int \<lfloor>a * 10 ^ d + 1 / 2\<rfloor> / 10 ^ d \<le> real_of_int \<lfloor>b * 10 ^ d + 1 / 2\<rfloor> / 10 ^ d"
      by (simp add: divide_right_mono)
    with small False show ?thesis by (simp add: roundMag_def)
  next
    case True
    define M :: int where "M = 10 ^ 21 * 10 ^ d"
    have M: "real_of_int M = 10 ^ 21 * 10 ^ d" by (simp add: M_def)
    have p: "(0::real) < 10 ^ d" by simp
    from small have "a < 10 ^ 21" by (simp only: not_le)
    then have "a * 10 ^ d < 10 ^ 21 * 10 ^ d"
      using p by (rule mult_strict_right_mono)
    then have "a * 10 ^ d + 1 / 2 < real_of_int M + 1"
      by (simp only: M)
    then have "\<lfloor>a * 10 ^ d + 1 / 2\<rfloor> < M + 1"
      by (simp only: floor_less_iff of_int_add of_int_1)
    then have "\<lfloor>a * 10 ^ d + 1 / 2\<rfloor> \<le> M" by linarith
    then have "real_of_int \<lfloor>a * 10 ^ d + 1 / 2\<rfloor> \<le> real_of_int M"
      by (simp only: of_int_le_iff)
    then have "real_of_int \<lfloor>a * 10 ^ d + 1 / 2\<rfloor> \<le> 10 ^ 21 * 10 ^ d"
      by (simp only: M)
    then have "real_of_int \<lfloor>a * 10 ^ d + 1 / 2\<rfloor> / 10 ^ d \<le> 10 ^ 21"
      using p by (simp only: pos_divide_le_eq)
    with small True show ?thesis by (simp add: roundMag_def)
  qed
qed

lemma toFixed_mono: "x \<le> y \<Longrightarrow> toFixed d x \<le> toFixed d y"
proof -
  assume le: "x \<le> y"
  consider "0 \<le> x" | "x < 0" "0 \<le> y" | "x < 0" "y < 0" by linarith
  then show ?thesis
  proof cases
    case 1
    with le show ?thesis by (simp add: toFixed_nonneg_eq roundMag_mono)
  next
    case 2
    have "- roundMag d (- x) \<le> 0" using 2 by (simp add: roundMag_nonneg)
    also have "0 \<le> roundMag d y" using 2 by (simp add: roundMag_nonneg)
    finally show ?thesis using 2 by (simp add: toFixed_nonneg_eq toFixed_neg_eq)
  next
    case 3
    have "roundMag d (- y) \<le> roundMag d (- x)" using 3 le by (intro roundMag_mono) simp_all
    then show ?thesis using 3 by (simp add: toFixed_neg_eq)
  qed
qed

lemma toFixed_0: "toFixed d 0 = 0" by (simp add: toFixed_def)


lemma set_insortBy: "set (insortBy cmp x xs) = insert x (set xs)"
  by (induction xs) auto

lemma set_sortBy: "set (sortBy cmp xs) = set xs"
  by (induction xs) (simp_all add: sortBy_def set_insortBy)

lemma sorted_insortBy:
  assumes tr: "\<And>a b c. cmp a b \<le> 0 \<Longrightarrow> cmp b c \<le> 0 \<Longrightarrow> cmp a c \<le> 0"
    and tot: "\<And>a b. cmp a b \<le> 0 \<or> cmp b a \<le> 0"
    and s: "sorted_wrt (\<lambda>a b. cmp a b \<le> 0) xs"
  shows "sorted_wrt (\<lambda>a b. cmp a b \<le> 0) (insortBy cmp x xs)"
  using s
proof (induction xs)
  case Nil
  then show ?case by simp
next
  case (Cons y ys)
  show ?case
  proof (cases "cmp x y \<le> 0")
    case True
    then have "\<forall>z\<in>set ys. cmp x z \<le> 0" using Cons.prems tr by auto
    with True Cons.prems show ?thesis by simp
  next
    case False
    then have "cmp y x \<le> 0" using tot [of x y] by simp
    with False Cons show ?thesis by (auto simp: set_insortBy)
  qed
qed

lemma sorted_sortBy:
  assumes tr: "\<And>a b c. cmp a b \<le> 0 \<Longrightarrow> cmp b c \<le> 0 \<Longrightarrow> cmp a c \<le> 0"
    and tot: "\<And>a b. cmp a b \<le> 0 \<or> cmp b a \<le> 0"
  shows "sorted_wrt (\<lambda>a b. cmp a b \<le> 0) (sortBy cmp xs)"
proof (induction xs)
  case Nil
  then show ?case by (simp add: sortBy_def)
next
  case (Cons x xs)
  have "sortBy cmp (x # xs) = insortBy cmp x (sortBy cmp xs)" by (simp add: sortBy_def)
  with Cons show ?case using sorted_insortBy [of cmp, OF tr tot] by simp
qed

section \<open>Reverse charging\<close>

lemma sim_found_iff:
  "rescueFound (simulateReverseCharging input) \<longleftrightarrow>
     \<not> (orElse (oneRescuePerTrip input) False \<and> orElse (alreadyRescuedOnTrip input) False) \<and>
     (\<exists>donor. first (rescueCandidates input) = Some donor \<and> 0 < plannedTransferKwh input donor)"
  by (auto simp: simulateReverseCharging_def plannedTransferKwh_def failedRescue_def Let_def split: option.splits)

lemma sim_found_fields:
  assumes "rescueFound (simulateReverseCharging input)"
  obtains donor where "first (rescueCandidates input) = Some donor"
    and "0 < plannedTransferKwh input donor"
    and "transferredEnergyKwh (simulateReverseCharging input) = toFixed 2 (plannedTransferKwh input donor)"
    and "receiverBatteryAfterPercent (simulateReverseCharging input) =
           Some (toFixed 1 (min 100 (receiverCurrentBatteryPercent input +
              plannedTransferKwh input donor / max 1 (receiverBatteryCapacityKwh input) * 100)))"
    and "donorBatteryAfterPercent (simulateReverseCharging input) =
           Some (toFixed 1 ((availableBatteryPercent donor / 100 * orElse (donorBatteryCapacityKwh input) 70
              - plannedTransferKwh input donor) / orElse (donorBatteryCapacityKwh input) 70 * 100))"
  using assms
  by (auto simp: simulateReverseCharging_def plannedTransferKwh_def failedRescue_def Let_def split: option.splits if_splits)

lemma sim_not_found_zero:
  "\<not> rescueFound (simulateReverseCharging input) \<Longrightarrow> transferredEnergyKwh (simulateReverseCharging input) = 0"
  by (auto simp: simulateReverseCharging_def failedRescue_def Let_def split: option.splits if_splits)

lemma planned_bounds:
  "0 < plannedTransferKwh input donor \<Longrightarrow>
     rangeMin (orElse (transferKwhRange input) \<lparr>rangeMin = 5, rangeMax = 10\<rparr>) \<le> plannedTransferKwh input donor \<and>
     plannedTransferKwh input donor \<le> rangeMax (orElse (transferKwhRange input) \<lparr>rangeMin = 5, rangeMax = 10\<rparr>)
     \<and> plannedTransferKwh input donor \<le> availableBatteryPercent donor / 100 * orElse (donorBatteryCapacityKwh input) 70
          - orElse (donorSafeBatteryFloorPercent input) 25 / 100 * orElse (donorBatteryCapacityKwh input) 70"
  by (auto simp: plannedTransferKwh_def Let_def split: if_splits)


lemma toFixed2_5: "toFixed 2 5 = 5"
  by (simp add: toFixed_def)

lemma toFixed2_10: "toFixed 2 10 = 10"
  by (simp add: toFixed_def)

text \<open>
  C1 (as amended). An accepted rescue transfers an amount inside the configured window;
  the reported \<open>transferredEnergyKwh\<close> is that amount rounded to two decimals, so it is
  at least the minimum (at most the maximum) whenever that bound is itself a two-decimal
  number, which the defaults 5 and 10 are. A rejected rescue reports exactly 0.
\<close>

theorem simulateReverseCharging_transfer_window:
  "(rescueFound (simulateReverseCharging input) \<longrightarrow>
      (\<exists>donor. first (rescueCandidates input) = Some donor \<and>
         transferredEnergyKwh (simulateReverseCharging input) = toFixed 2 (plannedTransferKwh input donor) \<and>
         rangeMin (orElse (transferKwhRange input) \<lparr>rangeMin = 5, rangeMax = 10\<rparr>) \<le> plannedTransferKwh input donor \<and>
         plannedTransferKwh input donor \<le> rangeMax (orElse (transferKwhRange input) \<lparr>rangeMin = 5, rangeMax = 10\<rparr>)) \<and>
      (toFixed 2 (rangeMin (orElse (transferKwhRange input) \<lparr>rangeMin = 5, rangeMax = 10\<rparr>)) = rangeMin (orElse (transferKwhRange input) \<lparr>rangeMin = 5, rangeMax = 10\<rparr>) \<longrightarrow>
         rangeMin (orElse (transferKwhRange input) \<lparr>rangeMin = 5, rangeMax = 10\<rparr>) \<le> transferredEnergyKwh (simulateReverseCharging input)) \<and>
      (toFixed 2 (rangeMax (orElse (transferKwhRange input) \<lparr>rangeMin = 5, rangeMax = 10\<rparr>)) = rangeMax (orElse (transferKwhRange input) \<lparr>rangeMin = 5, rangeMax = 10\<rparr>) \<longrightarrow>
         transferredEnergyKwh (simulateReverseCharging input) \<le> rangeMax (orElse (transferKwhRange input) \<lparr>rangeMin = 5, rangeMax = 10\<rparr>)) \<and>
      (transferKwhRange input = None \<longrightarrow> 5 \<le> transferredEnergyKwh (simulateReverseCharging input) \<and> transferredEnergyKwh (simulateReverseCharging input) \<le> 10)) \<and>
   (\<not> rescueFound (simulateReverseCharging input) \<longrightarrow> transferredEnergyKwh (simulateReverseCharging input) = 0)"
proof (intro conjI impI)
  assume found: "rescueFound (simulateReverseCharging input)"
  then obtain donor where d: "first (rescueCandidates input) = Some donor"
    and pos: "0 < plannedTransferKwh input donor"
    and t: "transferredEnergyKwh (simulateReverseCharging input) = toFixed 2 (plannedTransferKwh input donor)"
    by (rule sim_found_fields)
  note b = planned_bounds [OF pos]
  show "\<exists>donor. first (rescueCandidates input) = Some donor \<and>
         transferredEnergyKwh (simulateReverseCharging input) = toFixed 2 (plannedTransferKwh input donor) \<and>
         rangeMin (orElse (transferKwhRange input) \<lparr>rangeMin = 5, rangeMax = 10\<rparr>) \<le> plannedTransferKwh input donor \<and>
         plannedTransferKwh input donor \<le> rangeMax (orElse (transferKwhRange input) \<lparr>rangeMin = 5, rangeMax = 10\<rparr>)"
    using d t b by blast
  show lo: "rangeMin (orElse (transferKwhRange input) \<lparr>rangeMin = 5, rangeMax = 10\<rparr>) \<le> transferredEnergyKwh (simulateReverseCharging input)"
    if "toFixed 2 (rangeMin (orElse (transferKwhRange input) \<lparr>rangeMin = 5, rangeMax = 10\<rparr>)) = rangeMin (orElse (transferKwhRange input) \<lparr>rangeMin = 5, rangeMax = 10\<rparr>)"
    using toFixed_mono [of "rangeMin (orElse (transferKwhRange input) \<lparr>rangeMin = 5, rangeMax = 10\<rparr>)" "plannedTransferKwh input donor" 2] b t that by simp
  show hi: "transferredEnergyKwh (simulateReverseCharging input) \<le> rangeMax (orElse (transferKwhRange input) \<lparr>rangeMin = 5, rangeMax = 10\<rparr>)"
    if "toFixed 2 (rangeMax (orElse (transferKwhRange input) \<lparr>rangeMin = 5, rangeMax = 10\<rparr>)) = rangeMax (orElse (transferKwhRange input) \<lparr>rangeMin = 5, rangeMax = 10\<rparr>)"
    using toFixed_mono [of "plannedTransferKwh input donor" "rangeMax (orElse (transferKwhRange input) \<lparr>rangeMin = 5, rangeMax = 10\<rparr>)" 2] b t that by simp
  {
    assume none: "transferKwhRange input = None"
    show "5 \<le> transferredEnergyKwh (simulateReverseCharging input)" using lo none by (simp add: toFixed2_5)
    show "transferredEnergyKwh (simulateReverseCharging input) \<le> 10" using hi none by (simp add: toFixed2_10)
  }
next
  assume "\<not> rescueFound (simulateReverseCharging input)"
  then show "transferredEnergyKwh (simulateReverseCharging input) = 0"
    by (rule sim_not_found_zero)
qed

theorem simulateReverseCharging_transfer_window_witness:
  "rescueFound (simulateReverseCharging sampleRescueInput) \<and>
   transferKwhRange sampleRescueInput = None \<and>
   toFixed 2 5 = 5 \<and> toFixed 2 10 = 10 \<and>
   5 \<le> transferredEnergyKwh (simulateReverseCharging sampleRescueInput) \<and>
   transferredEnergyKwh (simulateReverseCharging sampleRescueInput) \<le> 10 \<and>
   \<not> rescueFound (simulateReverseCharging (sampleRescueInput\<lparr>rescueCandidates := [sampleDonor 30]\<rparr>)) \<and>
   transferredEnergyKwh (simulateReverseCharging (sampleRescueInput\<lparr>rescueCandidates := [sampleDonor 30]\<rparr>)) = 0"
  using simulateReverseCharging_transfer_window [of sampleRescueInput]
    simulateReverseCharging_transfer_window [of "sampleRescueInput\<lparr>rescueCandidates := [sampleDonor 30]\<rparr>"]
  by (simp add: simulateReverseCharging_def sampleRescueInput_def sampleDonor_def
      failedRescue_def toFixed_def sortBy_def Let_def)

text \<open>
  C1 as stated fails once a bound of the window is not a two-decimal number: with the
  window 5.001 to 10 and a donor that can give 5.002 kWh, the rescue is accepted and
  the reported energy is 5, below the minimum.
\<close>

theorem simulateReverseCharging_transfer_window_counterexample:
  "rescueFound (simulateReverseCharging
     (sampleRescueInput\<lparr>rescueCandidates := [sampleDonor 30.002],
        donorBatteryCapacityKwh := Some 100,
        transferKwhRange := Some \<lparr>rangeMin = 5.001, rangeMax = 10\<rparr>\<rparr>)) \<and>
   transferredEnergyKwh (simulateReverseCharging
     (sampleRescueInput\<lparr>rescueCandidates := [sampleDonor 30.002],
        donorBatteryCapacityKwh := Some 100,
        transferKwhRange := Some \<lparr>rangeMin = 5.001, rangeMax = 10\<rparr>\<rparr>)) < 5.001"
  by (simp add: simulateReverseCharging_def sampleRescueInput_def sampleDonor_def
      toFixed_def sortBy_def Let_def)




text \<open>
  C10 (as amended). In an accepted rescue the transferred energy is at most the donor's
  current energy minus the floor energy. For a positive donor capacity the donor's
  percent after the transfer, before rounding, is at least the floor percent, and the
  reported \<open>donorBatteryAfterPercent\<close> (rounded to one decimal) is at least the floor
  whenever the floor is itself a one-decimal number, which the default 25 is.
\<close>

theorem simulateReverseCharging_donor_floor:
  assumes "rescueFound (simulateReverseCharging input)"
  shows "\<exists>donor after.
     first (rescueCandidates input) = Some donor \<and>
     plannedTransferKwh input donor \<le>
       availableBatteryPercent donor / 100 * orElse (donorBatteryCapacityKwh input) 70
       - orElse (donorSafeBatteryFloorPercent input) 25 / 100 * orElse (donorBatteryCapacityKwh input) 70 \<and>
     donorBatteryAfterPercent (simulateReverseCharging input) = Some (toFixed 1 after) \<and>
     after = (availableBatteryPercent donor / 100 * orElse (donorBatteryCapacityKwh input) 70
                - plannedTransferKwh input donor) / orElse (donorBatteryCapacityKwh input) 70 * 100 \<and>
     (0 < orElse (donorBatteryCapacityKwh input) 70 \<longrightarrow>
        orElse (donorSafeBatteryFloorPercent input) 25 \<le> after \<and>
        (toFixed 1 (orElse (donorSafeBatteryFloorPercent input) 25) = orElse (donorSafeBatteryFloorPercent input) 25 \<longrightarrow>
           orElse (donorSafeBatteryFloorPercent input) 25 \<le> toFixed 1 after))"
proof -
  define cap where "cap = orElse (donorBatteryCapacityKwh input) 70"
  define fl where "fl = orElse (donorSafeBatteryFloorPercent input) 25"
  from assms obtain donor where d: "first (rescueCandidates input) = Some donor"
    and pos: "0 < plannedTransferKwh input donor"
    and a: "donorBatteryAfterPercent (simulateReverseCharging input) =
           Some (toFixed 1 ((availableBatteryPercent donor / 100 * cap
              - plannedTransferKwh input donor) / cap * 100))"
    unfolding cap_def by (rule sim_found_fields)
  define t where "t = plannedTransferKwh input donor"
  define after where "after = (availableBatteryPercent donor / 100 * cap - t) / cap * 100"
  have le: "t \<le> availableBatteryPercent donor / 100 * cap - fl / 100 * cap"
    using planned_bounds [OF pos] by (simp add: cap_def fl_def t_def)
  have fl_le: "fl \<le> after" if "0 < cap"
  proof -
    have "fl / 100 * cap \<le> availableBatteryPercent donor / 100 * cap - t"
      using le by simp
    then have "fl / 100 \<le> (availableBatteryPercent donor / 100 * cap - t) / cap"
      using that by (simp add: pos_le_divide_eq)
    then show ?thesis by (simp add: after_def)
  qed
  have "fl \<le> toFixed 1 after" if "0 < cap" "toFixed 1 fl = fl"
    using toFixed_mono [OF fl_le [OF that(1)], of 1] that(2) by simp
  with d le a fl_le show ?thesis
    unfolding cap_def [symmetric] fl_def [symmetric]
    by (intro exI [of _ donor] exI [of _ after]) (simp add: t_def after_def)
qed

theorem simulateReverseCharging_donor_floor_witness:
  "rescueFound (simulateReverseCharging sampleRescueInput) \<and>
   0 < orElse (donorBatteryCapacityKwh sampleRescueInput) 70 \<and>
   toFixed 1 (orElse (donorSafeBatteryFloorPercent sampleRescueInput) 25) =
     orElse (donorSafeBatteryFloorPercent sampleRescueInput) 25 \<and>
   donorBatteryAfterPercent (simulateReverseCharging sampleRescueInput) = Some 75.7 \<and>
   (25::real) \<le> 75.7"
  using simulateReverseCharging_donor_floor [of sampleRescueInput]
  by (simp add: simulateReverseCharging_def plannedTransferKwh_def sampleRescueInput_def
      sampleDonor_def toFixed_def sortBy_def Let_def)

text \<open>
  C10 as stated fails in two ways. With a floor of 25.04 percent and a donor at 35.04
  percent the transfer of 7 kWh leaves the donor at exactly 25.04 percent, reported as
  25.0. With a negative donor capacity of -70 kWh and a donor at 10 percent the rescue
  is accepted and the donor is reported at 24.3 percent, below the default floor.
\<close>

theorem simulateReverseCharging_donor_floor_counterexample:
  "rescueFound (simulateReverseCharging
     (sampleRescueInput\<lparr>rescueCandidates := [sampleDonor 35.04],
        donorSafeBatteryFloorPercent := Some 25.04\<rparr>)) \<and>
   donorBatteryAfterPercent (simulateReverseCharging
     (sampleRescueInput\<lparr>rescueCandidates := [sampleDonor 35.04],
        donorSafeBatteryFloorPercent := Some 25.04\<rparr>)) = Some 25 \<and>
   rescueFound (simulateReverseCharging
     (sampleRescueInput\<lparr>rescueCandidates := [sampleDonor 10],
        donorBatteryCapacityKwh := Some (- 70)\<rparr>)) \<and>
   donorBatteryAfterPercent (simulateReverseCharging
     (sampleRescueInput\<lparr>rescueCandidates := [sampleDonor 10],
        donorBatteryCapacityKwh := Some (- 70)\<rparr>)) = Some 24.3"
  by (simp add: simulateReverseCharging_def sampleRescueInput_def sampleDonor_def
      toFixed_def sortBy_def Let_def)

section \<open>Route similarity\<close>

lemma startsWith_iff: "startsWith a b \<longleftrightarrow> (\<exists>s. a = b @ s)"
  by (induction a b rule: startsWith.induct) auto

lemma includesStr_iff: "includesStr a b \<longleftrightarrow> (\<exists>p s. a = p @ b @ s)"
proof (induction a)
  case Nil
  then show ?case by auto
next
  case (Cons x xs)
  show ?case
  proof
    assume "includesStr (x # xs) b"
    then consider "startsWith (x # xs) b" | "includesStr xs b" by auto
    then show "\<exists>p s. x # xs = p @ b @ s"
    proof cases
      case 1
      then obtain s where "x # xs = b @ s" by (auto simp: startsWith_iff)
      then have "x # xs = [] @ b @ s" by simp
      then show ?thesis by blast
    next
      case 2
      then obtain p s where "xs = p @ b @ s" using Cons.IH by auto
      then have "x # xs = (x # p) @ b @ s" by simp
      then show ?thesis by blast
    qed
  next
    assume "\<exists>p s. x # xs = p @ b @ s"
    then obtain p s where e: "x # xs = p @ b @ s" by auto
    show "includesStr (x # xs) b"
    proof (cases p)
      case Nil
      with e have "startsWith (x # xs) b" by (auto simp: startsWith_iff)
      then show ?thesis by simp
    next
      case (Cons y p')
      with e have "xs = p' @ b @ s" by simp
      then have "includesStr xs b" using Cons.IH by blast
      then show ?thesis by simp
    qed
  qed
qed

lemma distinct_tokens: "distinct (tokens s)"
  by (simp add: tokens_def)

lemma overlap_card:
  "distinct xs \<Longrightarrow> length (filter (\<lambda>t. t \<in> B) xs) = card (set xs \<inter> B)"
proof -
  assume d: "distinct xs"
  then have "distinct (filter (\<lambda>t. t \<in> B) xs)" by simp
  then have "card (set (filter (\<lambda>t. t \<in> B) xs)) = length (filter (\<lambda>t. t \<in> B) xs)"
    by (rule distinct_card)
  then have "length (filter (\<lambda>t. t \<in> B) xs) = card (set (filter (\<lambda>t. t \<in> B) xs))"
    by (rule sym)
  also have "set (filter (\<lambda>t. t \<in> B) xs) = set xs \<inter> B" by auto
  finally show ?thesis .
qed

lemma split_unfold:
  "splitNonAlnum s =
     takeWhile isLowerAlnum s #
       (if dropWhile isLowerAlnum s = [] then []
        else splitNonAlnum (dropWhile (\<lambda>c. \<not> isLowerAlnum c) (dropWhile isLowerAlnum s)))"
proof (induction s rule: splitNonAlnum.induct)
  case 1
  then show ?case by simp
next
  case (2 c cs)
  show ?case
  proof (cases "isLowerAlnum c")
    case True
    with 2(1) show ?thesis by simp
  next
    case False
    show ?thesis
    proof (cases cs)
      case Nil
      with False show ?thesis by simp
    next
      case (Cons c' cs')
      show ?thesis
      proof (cases "isLowerAlnum c'")
        case True
        with False Cons show ?thesis by simp
      next
        case nb: False
        from 2(3) [OF False Cons nb] nb Cons False show ?thesis by simp
      qed
    qed
  qed
qed

lemma tokenSet_alnum_only:
  assumes "list_all isLowerAlnum s"
  shows "tokenSet s = (if s = [] then {} else {s})"
proof -
  have "t = s" if "t \<in> tokenSet s" for t
  proof -
    from that obtain p q where e: "s = p @ t @ q"
      and p: "p = [] \<or> \<not> isLowerAlnum (last p)"
      and q: "q = [] \<or> \<not> isLowerAlnum (hd q)"
      by (auto simp: tokenSet_def)
    from assms e have "list_all isLowerAlnum p" "list_all isLowerAlnum q" by simp_all
    then have "p \<noteq> [] \<Longrightarrow> isLowerAlnum (last p)" "q \<noteq> [] \<Longrightarrow> isLowerAlnum (hd q)"
      by (auto simp: list_all_iff)
    with p q have "p = []" "q = []" by auto
    with e show ?thesis by simp
  qed
  moreover have "s \<in> tokenSet s" if "s \<noteq> []"
  proof -
    have "s = [] @ s @ []" by simp
    with that assms show ?thesis unfolding tokenSet_def by blast
  qed
  moreover have "t \<noteq> []" if "t \<in> tokenSet s" for t using that by (simp add: tokenSet_def)
  ultimately show ?thesis by auto
qed

lemma takeWhile_run:
  assumes "list_all P t" and "q = [] \<or> \<not> P (hd q)"
  shows "takeWhile P (t @ q) = t"
  using assms by (cases q) (auto simp: list_all_iff takeWhile_append2 intro: takeWhile_eq_all_conv [THEN iffD2])

lemma tokenSet_step:
  assumes u: "list_all isLowerAlnum u"
    and v: "v \<noteq> []" "list_all (\<lambda>c. \<not> isLowerAlnum c) v"
  shows "tokenSet (u @ v @ s') = (if u = [] then {} else {u}) \<union> tokenSet s'"
proof (intro set_eqI iffI)
  fix t
  assume "t \<in> tokenSet (u @ v @ s')"
  then obtain p q where t: "t \<noteq> []" "list_all isLowerAlnum t"
    and e: "u @ v @ s' = p @ t @ q"
    and p: "p = [] \<or> \<not> isLowerAlnum (last p)"
    and q: "q = [] \<or> \<not> isLowerAlnum (hd q)"
    by (auto simp: tokenSet_def)
  have hv: "\<not> isLowerAlnum (hd v)" using v by (cases v) auto
  show "t \<in> (if u = [] then {} else {u}) \<union> tokenSet s'"
  proof (cases "p = []")
    case True
    have "takeWhile isLowerAlnum (u @ (v @ s')) = u"
      using u v hv by (intro takeWhile_run) auto
    moreover have "takeWhile isLowerAlnum (t @ q) = t"
      using t q by (intro takeWhile_run) auto
    ultimately have "t = u" using e True by simp
    with t show ?thesis by simp
  next
    case False
    with p have lp: "\<not> isLowerAlnum (last p)" by simp
    from False obtain p0 x where px: "p = p0 @ [x]" by (metis rev_exhaust)
    with lp have nx: "\<not> isLowerAlnum x" by simp
    have "\<exists>p1. p = u @ p1"
    proof -
      from e px have "u @ (v @ s') = p0 @ ([x] @ t @ q)" by simp
      then consider us where "u = p0 @ us" "us @ (v @ s') = [x] @ t @ q"
        | us where "u @ us = p0" "v @ s' = us @ ([x] @ t @ q)"
        by (auto simp: append_eq_append_conv2)
      then show ?thesis
      proof cases
        case 1
        show ?thesis
        proof (cases us)
          case Nil
          with 1 px show ?thesis by auto
        next
          case (Cons y ys)
          with 1 have "y = x" by simp
          with 1 Cons u nx show ?thesis by simp
        qed
      next
        case 2
        with px show ?thesis by auto
      qed
    qed
    then obtain p1 where p1: "p = u @ p1" by blast
    with e have e1: "v @ s' = p1 @ t @ q" by simp
    have "\<exists>p'. p1 = v @ p'"
    proof -
      from e1 consider us where "v = p1 @ us" "us @ s' = t @ q"
        | us where "v @ us = p1" "s' = us @ (t @ q)"
        by (auto simp: append_eq_append_conv2)
      then show ?thesis
      proof cases
        case 1
        show ?thesis
        proof (cases us)
          case Nil
          with 1 show ?thesis by auto
        next
          case (Cons y ys)
          with 1 t have "y = hd t" by (cases t) auto
          moreover from t have "isLowerAlnum (hd t)" by (cases t) auto
          moreover from 1 Cons v have "\<not> isLowerAlnum y" by simp
          ultimately show ?thesis by simp
        qed
      next
        case 2
        then show ?thesis by auto
      qed
    qed
    then obtain p' where p': "p1 = v @ p'" by blast
    with e1 have s': "s' = p' @ t @ q" by simp
    have "p' = [] \<or> \<not> isLowerAlnum (last p')"
      using lp p1 p' by (cases "p' = []") auto
    with s' t q have "t \<in> tokenSet s'" unfolding tokenSet_def by blast
    then show ?thesis by simp
  qed
next
  fix t
  assume a: "t \<in> (if u = [] then {} else {u}) \<union> tokenSet s'"
  have hv: "\<not> isLowerAlnum (hd v)" using v by (cases v) auto
  have lv: "\<not> isLowerAlnum (last v)" using v by (cases v rule: rev_cases) auto
  show "t \<in> tokenSet (u @ v @ s')"
  proof (cases "t \<in> tokenSet s'")
    case True
    then obtain p q where t: "t \<noteq> []" "list_all isLowerAlnum t"
      and e: "s' = p @ t @ q"
      and p: "p = [] \<or> \<not> isLowerAlnum (last p)"
      and q: "q = [] \<or> \<not> isLowerAlnum (hd q)"
      by (auto simp: tokenSet_def)
    have "u @ v @ s' = (u @ v @ p) @ t @ q" using e by simp
    moreover have "\<not> isLowerAlnum (last (u @ v @ p))"
      using p lv v by (cases "p = []") auto
    ultimately show ?thesis using t q unfolding tokenSet_def by blast
  next
    case False
    with a have tu: "t = u" "u \<noteq> []" by (auto split: if_splits)
    have "u @ v @ s' = [] @ u @ (v @ s')" by simp
    moreover have "\<not> isLowerAlnum (hd (v @ s'))" using hv v by simp
    ultimately show ?thesis using tu u unfolding tokenSet_def by blast
  qed
qed

lemma tokens_maximal_runs: "set (filter (\<lambda>t. t \<noteq> []) (splitNonAlnum s)) = tokenSet s"
proof (induction s rule: length_induct)
  case (1 s)
  define u where "u = takeWhile isLowerAlnum s"
  define r where "r = dropWhile isLowerAlnum s"
  have s: "s = u @ r" by (simp add: u_def r_def)
  have au: "list_all isLowerAlnum u"
    by (auto simp: u_def list_all_iff dest: set_takeWhileD)
  show ?case
  proof (cases "r = []")
    case True
    then have "splitNonAlnum s = [u]"
      unfolding u_def r_def by (subst split_unfold) (simp only: refl if_True)
    moreover have "tokenSet s = (if u = [] then {} else {u})"
      using tokenSet_alnum_only [OF au] s True by simp
    ultimately show ?thesis by auto
  next
    case False
    define v where "v = takeWhile (\<lambda>c. \<not> isLowerAlnum c) r"
    define s' where "s' = dropWhile (\<lambda>c. \<not> isLowerAlnum c) r"
    have r: "r = v @ s'" by (simp add: v_def s'_def)
    have "\<not> isLowerAlnum (hd r)" using False unfolding r_def by (metis hd_dropWhile)
    then have vne: "v \<noteq> []" using False unfolding v_def by (cases r) auto
    have av: "list_all (\<lambda>c. \<not> isLowerAlnum c) v"
      by (auto simp: v_def list_all_iff dest: set_takeWhileD)
    have "length s' < length s" using s r vne by simp
    then have ih: "set (filter (\<lambda>t. t \<noteq> []) (splitNonAlnum s')) = tokenSet s'"
      using 1 by blast
    have "splitNonAlnum s = u # splitNonAlnum s'"
      using False unfolding u_def r_def s'_def by (subst split_unfold) (simp only: if_False)
    then have "set (filter (\<lambda>t. t \<noteq> []) (splitNonAlnum s)) = (if u = [] then {} else {u}) \<union> tokenSet s'"
      using ih by auto
    also have "\<dots> = tokenSet (u @ v @ s')" using tokenSet_step [OF au vne av] by simp
    finally show ?thesis using s r by simp
  qed
qed

lemma set_tokens: "set (tokens s) = tokenSet s"
  unfolding tokens_def set_remdups by (rule tokens_maximal_runs)

text \<open>
  C9 (as amended). After trimming and lower-casing, the score is 0 if either string is
  empty; otherwise identical strings score 1, containment in either direction scores
  0.75, and otherwise the score is the number of common tokens divided by the larger
  number of tokens, or 0 if either token set is empty. The tokens of a string are its
  maximal non-empty runs of characters of \<open>[a-z0-9]\<close>.
\<close>

theorem routeSimilarityScore_meets_spec:
  "routeSimilarityScore routeA routeB = similaritySpec routeA routeB"
  unfolding routeSimilarityScore_def similaritySpec_def Let_def includesStr_iff
    set_tokens [symmetric]
  by (simp add: overlap_card distinct_tokens distinct_card)

lemma similarity_sample_tokens:
  "routeSimilarityScore ''Jaipur-Ajmer'' ''jaipur  ajmer road'' = 2 / 3"
  by code_simp

lemma similarity_sample_contained:
  "routeSimilarityScore ''Jaipur-Ajmer'' '' AJMER '' = 3 / 4"
  by code_simp

theorem routeSimilarityScore_meets_spec_witness:
  "similaritySpec ''Jaipur-Ajmer'' ''jaipur  ajmer road'' = 2 / 3 \<and>
   similaritySpec ''Jaipur-Ajmer'' '' AJMER '' = 3 / 4"
  using routeSimilarityScore_meets_spec [of "''Jaipur-Ajmer''" "''jaipur  ajmer road''"]
    routeSimilarityScore_meets_spec [of "''Jaipur-Ajmer''" "'' AJMER ''"]
  by (simp only: similarity_sample_tokens similarity_sample_contained)

text \<open>
  C9 as stated fails on strings that are empty after trimming: two such strings are
  identical and score 0, not 1, and an empty string is contained in any other and scores
  0, not 0.75.
\<close>

theorem routeSimilarityScore_counterexample:
  "routeSimilarityScore '' '' '' '' = 0 \<and> routeSimilarityScore ''north'' [] = 0"
  by (simp add: routeSimilarityScore_def trim_def toLowerCase_def isWhiteSpace_def)

section \<open>Rescue matching\<close>

lemma rescueOrder_le:
  "rescueOrder a b \<le> 0 \<longleftrightarrow>
     distanceKm a < distanceKm b \<or>
     (distanceKm a = distanceKm b \<and> availableBatteryPercent (vehicle b) \<le> availableBatteryPercent (vehicle a))"
  by (auto simp: rescueOrder_def)

lemma sorted_rescueOrder: "sorted_wrt (\<lambda>a b. rescueOrder a b \<le> 0) (sortBy rescueOrder xs)"
  by (rule sorted_sortBy) (auto simp: rescueOrder_le)

lemma haversineKm_same: "haversineKm a a = 0"
  by (simp add: haversineKm_def toRad_def atan2_def)

text \<open>
  C5. Every vehicle returned by \<open>findNearbyRescueVehicles\<close> is one of the given
  vehicles, supports reverse charging, has at least the minimum donor battery (default
  40), lies within \<open>maxDistanceKm\<close> (default 8) of the receiver by haversine distance
  and has a route similarity of at least 0.35; the list is ordered by non-decreasing
  distance, ties by descending battery percent.
\<close>

theorem findNearbyRescueVehicles_filtered_sorted:
  "(\<forall>v \<in> set (findNearbyRescueVehicles input).
      v \<in> set (vehicles input) \<and>
      supportsReverseCharging v \<and>
      orElse (minimumDonorBatteryPercent input) 40 \<le> availableBatteryPercent v \<and>
      haversineKm (receiverLocation input) (currentLocation v) \<le> orElse (maxDistanceKm input) 8 \<and>
      0.35 \<le> routeSimilarityScore (receiverRouteDirection input) (routeDirection v)) \<and>
   sorted_wrt (nearerDonor (receiverLocation input)) (findNearbyRescueVehicles input)"
proof
  show "\<forall>v \<in> set (findNearbyRescueVehicles input).
      v \<in> set (vehicles input) \<and>
      supportsReverseCharging v \<and>
      orElse (minimumDonorBatteryPercent input) 40 \<le> availableBatteryPercent v \<and>
      haversineKm (receiverLocation input) (currentLocation v) \<le> orElse (maxDistanceKm input) 8 \<and>
      0.35 \<le> routeSimilarityScore (receiverRouteDirection input) (routeDirection v)"
    by (auto simp: findNearbyRescueVehicles_def Let_def set_sortBy rescueCandidateOf_def)
next
  let ?cs = "filter (\<lambda>c. similarity c \<ge> 0.35)
                 (filter (\<lambda>c. distanceKm c \<le> orElse (maxDistanceKm input) 8)
                    (map (rescueCandidateOf input)
                       (filter (\<lambda>v. availableBatteryPercent v \<ge> orElse (minimumDonorBatteryPercent input) 40)
                          (filter supportsReverseCharging (vehicles input)))))"
  have cand: "distanceKm c = haversineKm (receiverLocation input) (currentLocation (vehicle c))"
    if "c \<in> set (sortBy rescueOrder ?cs)" for c
    using that by (auto simp: set_sortBy rescueCandidateOf_def)
  have "sorted_wrt (\<lambda>a b. rescueOrder a b \<le> 0) (sortBy rescueOrder ?cs)"
    by (rule sorted_rescueOrder)
  then have "sorted_wrt (\<lambda>a b. nearerDonor (receiverLocation input) (vehicle a) (vehicle b))
      (sortBy rescueOrder ?cs)"
  proof (rule sorted_wrt_mono_rel [rotated])
    fix a b
    assume "a \<in> set (sortBy rescueOrder ?cs)" "b \<in> set (sortBy rescueOrder ?cs)"
      and le: "rescueOrder a b \<le> 0"
    then have "distanceKm a = haversineKm (receiverLocation input) (currentLocation (vehicle a))"
      and "distanceKm b = haversineKm (receiverLocation input) (currentLocation (vehicle b))"
      by (simp_all only: cand)
    with le show "nearerDonor (receiverLocation input) (vehicle a) (vehicle b)"
      by (simp only: rescueOrder_le nearerDonor_def)
  qed
  then show "sorted_wrt (nearerDonor (receiverLocation input)) (findNearbyRescueVehicles input)"
    by (simp add: findNearbyRescueVehicles_def Let_def sorted_wrt_map)
qed

lemma similarity_sample_same:
  "routeSimilarityScore ''Same corridor outbound '' ''same corridor outbound'' = 1"
  by code_simp

theorem findNearbyRescueVehicles_filtered_sorted_witness:
  "findNearbyRescueVehicles sampleMatchInput = [sampleDonor 62, sampleDonor 48] \<and>
   supportsReverseCharging (sampleDonor 62) \<and>
   40 \<le> availableBatteryPercent (sampleDonor 62) \<and>
   haversineKm (receiverLocation sampleMatchInput) (currentLocation (sampleDonor 62)) \<le> 8 \<and>
   0.35 \<le> routeSimilarityScore (receiverRouteDirection sampleMatchInput) (routeDirection (sampleDonor 62)) \<and>
   nearerDonor (receiverLocation sampleMatchInput) (sampleDonor 62) (sampleDonor 48)"
  using findNearbyRescueVehicles_filtered_sorted [of sampleMatchInput]
  by (simp add: findNearbyRescueVehicles_def sampleMatchInput_def sampleDonor_def
      rescueCandidateOf_def rescueOrder_def nearerDonor_def sortBy_def Let_def
      haversineKm_same similarity_sample_same)

section \<open>Charging cost\<close>

lemma default_price:
  "effectivePricePerKwh (calculateChargingCost e st) =
     (case energySource st of Some Solar \<Rightarrow> 7.8 | Some Hybrid \<Rightarrow> 9.6 | _ \<Rightarrow> 12)"
  by (simp add: calculateChargingCost_def calculateSolarDiscountedCost_def toFixed_def Let_def
      split: option.splits EnergySource.splits)

lemma default_price_nonneg: "0 \<le> effectivePricePerKwh (calculateChargingCost e st)"
  by (simp add: default_price split: option.splits EnergySource.splits)

lemma total_eq:
  "totalCost (calculateChargingCost e st) =
     toFixed 2 (max 0 (if isFinite e then finiteValue e else 0) * effectivePricePerKwh (calculateChargingCost e' st))"
  by (simp add: calculateChargingCost_def calculateSolarDiscountedCost_def Let_def)

lemma cost_mono:
  assumes "e1 \<le> e2"
  shows "totalCost (calculateChargingCost (Finite e1) st) \<le> totalCost (calculateChargingCost (Finite e2) st)"
proof -
  let ?p = "effectivePricePerKwh (calculateChargingCost (Finite e1) st)"
  have "max 0 e1 * ?p \<le> max 0 e2 * ?p"
    using assms default_price_nonneg [of "Finite e1" st] by (intro mult_right_mono) auto
  then have "toFixed 2 (max 0 e1 * ?p) \<le> toFixed 2 (max 0 e2 * ?p)"
    by (rule toFixed_mono)
  then show ?thesis
    by (simp add: total_eq [of "Finite e1" st "Finite e1"] total_eq [of "Finite e2" st "Finite e1"])
qed

lemma cost_nonneg: "0 \<le> totalCost (calculateChargingCost e st)"
proof -
  have "0 \<le> max 0 (if isFinite e then finiteValue e else 0)
            * effectivePricePerKwh (calculateChargingCost e st)"
    using default_price_nonneg [of e st] by (intro mult_nonneg_nonneg) auto
  then have "toFixed 2 0 \<le> toFixed 2 (max 0 (if isFinite e then finiteValue e else 0)
            * effectivePricePerKwh (calculateChargingCost e st))"
    by (rule toFixed_mono)
  then show ?thesis by (simp add: total_eq [of e st e] toFixed_0)
qed

lemma cost_zero:
  assumes "\<not> isFinite e \<or> (\<exists>x. e = Finite x \<and> x \<le> 0)"
  shows "totalCost (calculateChargingCost e st) = 0"
proof -
  have "max 0 (if isFinite e then finiteValue e else 0) = 0"
    using assms by (cases e) auto
  then show ?thesis by (simp add: total_eq [of e st e] toFixed_def)
qed

lemma toFixed2_strict:
  assumes "0 \<le> x" "x + 1 / 100 \<le> y"
  shows "toFixed 2 x < toFixed 2 y"
proof -
  have y0: "0 \<le> y" and xy: "x < y" using assms by auto
  have fl: "real_of_int \<lfloor>x * 100 + 1 / 2\<rfloor> / 100 \<le> x + 1 / 200"
  proof -
    have "real_of_int \<lfloor>x * 100 + 1 / 2\<rfloor> \<le> x * 100 + 1 / 2" by (rule of_int_floor_le)
    then show ?thesis by simp
  qed
  consider "y < 10 ^ 21" | "10 ^ 21 \<le> x" | "x < 10 ^ 21" "10 ^ 21 \<le> y" by linarith
  then show ?thesis
  proof cases
    case 1
    then have x1: "x < 10 ^ 21" using xy by simp
    have "x * 100 + 1 / 2 + 1 \<le> y * 100 + 1 / 2" using assms by simp
    then have "\<lfloor>x * 100 + 1 / 2 + 1\<rfloor> \<le> \<lfloor>y * 100 + 1 / 2\<rfloor>" by (rule floor_mono)
    moreover have "\<lfloor>x * 100 + 1 / 2 + 1\<rfloor> = \<lfloor>x * 100 + 1 / 2\<rfloor> + 1"
      using floor_add_int [of "x * 100 + 1 / 2" 1] by simp
    ultimately have "\<lfloor>x * 100 + 1 / 2\<rfloor> < \<lfloor>y * 100 + 1 / 2\<rfloor>" by linarith
    then have "real_of_int \<lfloor>x * 100 + 1 / 2\<rfloor> / 100 < real_of_int \<lfloor>y * 100 + 1 / 2\<rfloor> / 100"
      by simp
    then show ?thesis
      using 1 x1 assms(1) y0 by (simp add: toFixed_nonneg_eq roundMag_def)
  next
    case 2
    then have "10 ^ 21 \<le> y" using xy by simp
    with 2 xy assms(1) y0 show ?thesis by (simp add: toFixed_nonneg_eq roundMag_def)
  next
    case 3
    then have "x + 1 / 200 < y" using assms by simp
    with fl have "real_of_int \<lfloor>x * 100 + 1 / 2\<rfloor> / 100 < y" by linarith
    with 3 assms(1) y0 show ?thesis by (simp add: toFixed_nonneg_eq roundMag_def)
  qed
qed

lemma jsLe_NaN_right: "\<not> jsLe a NaN"
  by (cases a) simp_all

lemma cost_mono_js:
  assumes "jsLe e1 e2" and "e2 \<noteq> PosInfinity"
  shows "totalCost (calculateChargingCost e1 st) \<le> totalCost (calculateChargingCost e2 st)"
proof (cases e2)
  case (Finite y)
  show ?thesis
  proof (cases e1)
    case (Finite x)
    with assms \<open>e2 = Finite y\<close> show ?thesis by (simp add: cost_mono)
  next
    case NegInfinity
    then have "totalCost (calculateChargingCost e1 st) = 0" by (simp add: cost_zero)
    then show ?thesis by (simp add: cost_nonneg)
  qed (use assms Finite in simp_all)
next
  case NegInfinity
  with assms have "e1 = NegInfinity" by (cases e1) simp_all
  with NegInfinity show ?thesis by simp
qed (use assms in \<open>simp_all add: jsLe_NaN_right\<close>)

text \<open>
  C6 (as amended). For every station and all energies \<open>e1 <= e2\<close> with \<open>e2\<close> other
  than \<open>+Infinity\<close>, the total cost of \<open>calculateChargingCost\<close> for \<open>e1\<close> is at most
  that for \<open>e2\<close>; a negative or non-finite energy costs 0. With the default discounts
  (solar 35, grid 0) the effective price of a solar station is strictly below that of the
  same station on grid power for every base tariff of at least 1/35, in particular at the
  default tariff 12.
\<close>

theorem calculateChargingCost_monotone_solar_cheaper:
  "(jsLe e1 e2 \<and> e2 \<noteq> PosInfinity \<longrightarrow>
      totalCost (calculateChargingCost e1 station)
        \<le> totalCost (calculateChargingCost e2 station)) \<and>
   (\<not> isFinite e \<or> (\<exists>x. e = Finite x \<and> x \<le> 0) \<longrightarrow>
      totalCost (calculateChargingCost e station) = 0) \<and>
   (1 \<le> 35 * b \<longrightarrow>
      effectivePricePerKwh
          (calculateSolarDiscountedCost e (station\<lparr>energySource := Some Solar\<rparr>) (baseTariffOnly b))
        < effectivePricePerKwh
          (calculateSolarDiscountedCost e (station\<lparr>energySource := Some Grid\<rparr>) (baseTariffOnly b))) \<and>
   effectivePricePerKwh (calculateChargingCost e (station\<lparr>energySource := Some Solar\<rparr>))
     < effectivePricePerKwh (calculateChargingCost e (station\<lparr>energySource := Some Grid\<rparr>))"
proof (intro conjI impI)
  assume "jsLe e1 e2 \<and> e2 \<noteq> PosInfinity"
  then show "totalCost (calculateChargingCost e1 station)
        \<le> totalCost (calculateChargingCost e2 station)"
    by (simp add: cost_mono_js)
next
  assume "\<not> isFinite e \<or> (\<exists>x. e = Finite x \<and> x \<le> 0)"
  then show "totalCost (calculateChargingCost e station) = 0"
    by (rule cost_zero)
next
  assume "1 \<le> 35 * b"
  then have "toFixed 2 (b * (1 - 35 / 100)) < toFixed 2 b"
    by (intro toFixed2_strict) auto
  then show "effectivePricePerKwh
          (calculateSolarDiscountedCost e (station\<lparr>energySource := Some Solar\<rparr>) (baseTariffOnly b))
        < effectivePricePerKwh
          (calculateSolarDiscountedCost e (station\<lparr>energySource := Some Grid\<rparr>) (baseTariffOnly b))"
    by (simp add: calculateSolarDiscountedCost_def baseTariffOnly_def Let_def)
next
  show "effectivePricePerKwh (calculateChargingCost e (station\<lparr>energySource := Some Solar\<rparr>))
     < effectivePricePerKwh (calculateChargingCost e (station\<lparr>energySource := Some Grid\<rparr>))"
    by (simp add: default_price)
qed

theorem calculateChargingCost_monotone_solar_cheaper_witness:
  "jsLe (Finite 10) (Finite 20) \<and> Finite 20 \<noteq> PosInfinity \<and>
   totalCost (calculateChargingCost (Finite 10) (sampleStation Solar)) = 78 \<and>
   totalCost (calculateChargingCost (Finite 20) (sampleStation Solar)) = 156 \<and>
   \<not> isFinite PosInfinity \<and>
   totalCost (calculateChargingCost PosInfinity (sampleStation Solar)) = 0 \<and>
   (1::real) \<le> 35 * 12 \<and>
   effectivePricePerKwh
     (calculateSolarDiscountedCost PosInfinity ((sampleStation Solar)\<lparr>energySource := Some Solar\<rparr>) (baseTariffOnly 12)) = 7.8 \<and>
   effectivePricePerKwh
     (calculateSolarDiscountedCost PosInfinity ((sampleStation Solar)\<lparr>energySource := Some Grid\<rparr>) (baseTariffOnly 12)) = 12"
  using calculateChargingCost_monotone_solar_cheaper
    [of "Finite 10" "Finite 20" "sampleStation Solar" PosInfinity 12]
  by (simp add: calculateChargingCost_def calculateSolarDiscountedCost_def baseTariffOnly_def
      sampleStation_def toFixed_def Let_def)

text \<open>
  C6 as stated fails in two places. For a small base tariff rounding to two decimals
  removes the discount: at a base tariff of 0.01 the solar price 0.0065 rounds to 0.01,
  the grid price. And the energy \<open>+Infinity\<close> is above every energy but costs 0, less
  than the 120 that 10 kWh cost at a grid station.
\<close>

theorem calculateChargingCost_solar_cheaper_counterexample:
  "effectivePricePerKwh
     (calculateSolarDiscountedCost (Finite 10) (sampleStation Solar) (baseTariffOnly 0.01)) = 0.01 \<and>
   effectivePricePerKwh
     (calculateSolarDiscountedCost (Finite 10) (sampleStation Grid) (baseTariffOnly 0.01)) = 0.01 \<and>
   jsLe (Finite 10) PosInfinity \<and>
   totalCost (calculateChargingCost (Finite 10) (sampleStation Grid)) = 120 \<and>
   totalCost (calculateChargingCost PosInfinity (sampleStation Grid)) = 0"
  by (simp add: calculateChargingCost_def calculateSolarDiscountedCost_def baseTariffOnly_def
      sampleStation_def toFixed_def Let_def)

section \<open>Trip planner\<close>

declare planLegs.simps [simp del]

lemma first_Some_mem: "first xs = Some x \<Longrightarrow> x \<in> set xs"
  by (cases xs) auto


lemma sortBy_Nil_iff: "sortBy cmp xs = [] \<longleftrightarrow> xs = []"
  using set_sortBy [of cmp xs] by (metis set_empty)

lemma filter_nonempty_iff: "length (filter P xs) > 0 \<longleftrightarrow> (\<exists>x \<in> set xs. P x)"
  by (induction xs) auto

lemma chosenPool_Nil_iff: "chosenPool xs = [] \<longleftrightarrow> xs = []"
  by (auto simp: chosenPool_def filter_empty_conv)

lemma rankedPool_Nil_iff: "rankedPool xs = [] \<longleftrightarrow> xs = []"
  by (simp add: rankedPool_def sortBy_Nil_iff)

lemma first_None_iff: "first xs = None \<longleftrightarrow> xs = []"
  by (cases xs) auto

lemma chooseBestStop_eq:
  assumes "fetchChargersNearPoint sv point st = (Inr nearby, st')"
  shows "chooseBestStop sv point route dfs e ids st =
     (case first (rankedPool (chosenPool (availableCandidates route ids nearby))) of
        None \<Rightarrow> (Inr (None, ids), st')
      | Some picked \<Rightarrow>
          (Inr (Some (plannedStopOf dfs e picked), insert (stationId (candStation picked)) ids), st'))"
proof (cases "availableCandidates route ids nearby = []")
  case True
  then have "first (rankedPool (chosenPool (availableCandidates route ids nearby))) = None"
    by (simp add: first_None_iff rankedPool_Nil_iff chosenPool_Nil_iff)
  moreover have "chooseBestStop sv point route dfs e ids st = (Inr (None, ids), st')"
    using assms True by (simp add: chooseBestStop_def availableCandidates_def Let_def)
  ultimately show ?thesis by simp
next
  case False
  then have n: "nearby \<noteq> []" by (auto simp: availableCandidates_def)
  have pool: "(if length (filter (\<lambda>candidate. candPower candidate \<ge> MIN_FAST_CHARGER_KW)
                     (availableCandidates route ids nearby)) > 0
               then filter (\<lambda>candidate. candPower candidate \<ge> MIN_FAST_CHARGER_KW)
                     (availableCandidates route ids nearby)
               else availableCandidates route ids nearby)
            = chosenPool (availableCandidates route ids nearby)"
    unfolding chosenPool_def filter_nonempty_iff by simp
  have "chooseBestStop sv point route dfs e ids st =
     (let available = availableCandidates route ids nearby;
          fastCandidates = filter (\<lambda>candidate. candPower candidate \<ge> MIN_FAST_CHARGER_KW) available;
          pool = (if length fastCandidates > 0 then fastCandidates else available);
          minDistanceInPool = minOf (map candDistanceFromRouteKm pool);
          ranked = sortBy stopOrder (map (rankCandidate minDistanceInPool) pool)
      in case first ranked of
           None \<Rightarrow> (Inr (None, ids), st')
         | Some picked \<Rightarrow>
             (Inr (Some (plannedStopOf dfs e picked), insert (stationId (candStation picked)) ids), st'))"
    using assms n False unfolding chooseBestStop_def availableCandidates_def [symmetric]
    by (simp add: Let_def)
  then show ?thesis
    unfolding Let_def pool rankedPool_def .
qed

lemma chooseBestStop_Some:
  assumes "chooseBestStop sv point route dfs e ids st = (Inr (Some stop, ids'), st')"
  shows "stopId stop \<notin> ids \<and> ids' = insert (stopId stop) ids"
proof -
  from assms obtain nearby where
    f: "fetchChargersNearPoint sv point st = (Inr nearby, st')"
    by (auto simp: chooseBestStop_def Let_def split: prod.splits sum.splits if_splits option.splits)
  define pool where "pool = chosenPool (availableCandidates route ids nearby)"
  from assms obtain picked where p: "first (rankedPool pool) = Some picked"
    and s: "stop = plannedStopOf dfs e picked"
    and i: "ids' = insert (stationId (candStation picked)) ids"
    unfolding chooseBestStop_eq [OF f] pool_def
    by (auto split: option.splits)
  from p have "picked \<in> set (rankedPool pool)" by (rule first_Some_mem)
  then obtain c where c: "c \<in> set pool" and pc: "picked = rankCandidate (minOf (map candDistanceFromRouteKm pool)) c"
    by (auto simp: rankedPool_def set_sortBy)
  from c have "c \<in> set (availableCandidates route ids nearby)"
    by (auto simp: pool_def chosenPool_def split: if_splits)
  then have "stationId (candStation c) \<notin> ids"
    by (auto simp: availableCandidates_def stopCandidateOf_def)
  moreover have "candStation picked = candStation c" by (simp add: pc rankCandidate_def)
  moreover have "stopId stop = stationId (candStation picked)" by (simp add: s plannedStopOf_def Let_def)
  ultimately show ?thesis using i by simp
qed

lemma planLegs_distinct:
  assumes "planLegs sv params route legRange consumption stopsNeeded i stops ids rd st = (Inr (stops', rd'), st')"
    and "set (map stopId stops) \<subseteq> ids" and "distinct (map stopId stops)"
  shows "distinct (map stopId stops')"
  using assms
proof (induction sv params route legRange consumption stopsNeeded i stops ids rd st rule: planLegs.induct)
  case (1 sv params route legRange consumption stopsNeeded i stops ids rd st)
  show ?case
  proof (cases "i \<le> stopsNeeded")
    case False
    with "1.prems" show ?thesis by (subst (asm) planLegs.simps) simp
  next
    case True
    define dfs where "dfs = legRange * real_of_int i"
    define rp where "rp = pointAtDistanceAlongRoute (geometry route) dfs"
    define en where "en = toFixed 2 (legRange * consumption)"
    obtain r st1 where cb: "chooseBestStop sv rp (geometry route) dfs en ids st = (r, st1)"
      by (cases "chooseBestStop sv rp (geometry route) dfs en ids st")
    show ?thesis
    proof (cases r)
      case (Inl e)
      with "1.prems"(1) True cb show ?thesis
        by (subst (asm) planLegs.simps) (simp add: Let_def dfs_def rp_def en_def)
    next
      case (Inr pr)
      obtain so ids1 where pr: "pr = (so, ids1)" by (cases pr)
      show ?thesis
      proof (cases so)
        case None
        with "1.prems"(1) True cb Inr pr have "stops' = stops"
          by (subst (asm) planLegs.simps)
            (auto simp: Let_def dfs_def rp_def en_def split: if_splits prod.splits sum.splits)
        with "1.prems" show ?thesis by simp
      next
        case (Some stop)
        with cb Inr pr have cb': "chooseBestStop sv rp (geometry route) dfs en ids st = (Inr (Some stop, ids1), st1)"
          by simp
        from chooseBestStop_Some [OF cb'] have new: "stopId stop \<notin> ids" and ids1: "ids1 = insert (stopId stop) ids"
          by auto
        have rec: "planLegs sv params route legRange consumption stopsNeeded (i + 1) (stops @ [stop]) ids1 rd st1 = (Inr (stops', rd'), st')"
          using "1.prems"(1) True cb'
          by (subst (asm) planLegs.simps) (simp add: Let_def dfs_def rp_def en_def)
        have sub: "set (map stopId (stops @ [stop])) \<subseteq> ids1"
          using "1.prems"(2) ids1 by auto
        have dis: "distinct (map stopId (stops @ [stop]))"
          using "1.prems"(2,3) new by auto
        show ?thesis
          by (rule "1.IH" [OF True dfs_def rp_def en_def cb' [symmetric] refl refl refl rec sub dis])
      qed
    qed
  qed
qed

subsection \<open>No charging needed\<close>

lemma sample_strings:
  "toLowerCase ''Jaipur'' = ''jaipur''" "trim ''Jaipur'' = ''Jaipur''"
  "toLowerCase ''Ajmer'' = ''ajmer''" "trim ''Ajmer'' = ''Ajmer''"
  by code_simp+

lemma toFixedText_0: "toFixedText d 0 = (False, 0)"
  by (simp add: toFixedText_def roundMag_def)

lemmas sample_simps =
  sample_strings sampleServices_def emptyCaches_def sampleTrip_def sampleStation_def
  missingKey_def toCoordinate_def toFixedText_0 toFixed_def haversineKm_same Let_def
  geocodeCity_def fetchRoute_def getRouteDistance_def fetchChargersNearPoint_def
  detectSolarStations_def detectSolarStation_def calculateUsableRangeKm_def

lemmas stop_simps =
  chooseBestStop_def pointAtDistanceAlongRoute_def minDistanceToRouteKm_def
  stopCandidateOf_def maxPowerKwOf_def rankCandidate_def stopOrder_def sortBy_def
  plannedStopOf_def availableCandidates_def
  RANGE_BUFFER_FACTOR_def DEFAULT_EFFICIENCY_KM_PER_KWH_def MIN_FAST_CHARGER_KW_def
  MIN_SOLAR_DETOUR_WINDOW_KM_def

text \<open>
  C3. When both places are geocoded, a route is fetched and its distance is at most the
  usable range computed by \<open>calculateUsableRangeKm\<close>, \<open>planEvTrip\<close> returns a result
  with \<open>requiresCharging = false\<close>, no charging stops, \<open>chargingStopsRequired = 0\<close> and
  a community rescue that was not triggered.
\<close>

theorem planEvTrip_no_charging_needed:
  assumes "geocodeCity sv (startLocation params) st = (Inr startC, st1)"
    and "geocodeCity sv (tripDestination params) st1 = (Inr destC, st2)"
    and "fetchRoute sv startC destC st2 = (Inr route, st3)"
    and "routeDistanceKm route
           \<le> calculateUsableRangeKm (evMaxRangeKm params) (currentBatteryPercent params)"
  shows "\<exists>res. planEvTrip sv params st = (Inr res, st3) \<and>
           \<not> requiresCharging res \<and> chargingStops res = [] \<and>
           chargingStopsRequired res = 0 \<and> \<not> triggered (communityRescue res)"
  using assms by (simp add: planEvTrip_def Let_def rescueNotUsed_def)

text \<open>The scenario of the specification: 300 km at 80 percent against a route of 150 km.\<close>

theorem planEvTrip_no_charging_needed_witness:
  "calculateUsableRangeKm (evMaxRangeKm sampleTrip) (currentBatteryPercent sampleTrip) = 240 \<and>
   (\<exists>startC st1 destC st2 route st3 res.
      geocodeCity (sampleServices 150000 []) (startLocation sampleTrip) emptyCaches = (Inr startC, st1) \<and>
      geocodeCity (sampleServices 150000 []) (tripDestination sampleTrip) st1 = (Inr destC, st2) \<and>
      fetchRoute (sampleServices 150000 []) startC destC st2 = (Inr route, st3) \<and>
      routeDistanceKm route = 150 \<and>
      planEvTrip (sampleServices 150000 []) sampleTrip emptyCaches = (Inr res, st3) \<and>
      \<not> requiresCharging res \<and> chargingStops res = [] \<and>
      chargingStopsRequired res = 0 \<and> \<not> triggered (communityRescue res))"
proof -
  define sv where "sv = sampleServices 150000 []"
  define st1 where "st1 = snd (geocodeCity sv (startLocation sampleTrip) emptyCaches)"
  define st2 where "st2 = snd (geocodeCity sv (tripDestination sampleTrip) st1)"
  define st3 where "st3 = snd (fetchRoute sv \<lparr>lat = 0, lng = 0\<rparr> \<lparr>lat = 0, lng = 0\<rparr> st2)"
  define route where "route = \<lparr>routeDistanceKm = 150, geometry = [\<lparr>lat = 0, lng = 0\<rparr>, \<lparr>lat = 0, lng = 0\<rparr>]\<rparr>"
  have u: "calculateUsableRangeKm (evMaxRangeKm sampleTrip) (currentBatteryPercent sampleTrip) = 240"
    by (simp add: sample_simps)
  have g1: "geocodeCity sv (startLocation sampleTrip) emptyCaches = (Inr \<lparr>lat = 0, lng = 0\<rparr>, st1)"
    unfolding st1_def sv_def by (simp add: sample_simps)
  have g2: "geocodeCity sv (tripDestination sampleTrip) st1 = (Inr \<lparr>lat = 0, lng = 0\<rparr>, st2)"
    unfolding st2_def st1_def sv_def by (simp add: sample_simps)
  have r: "fetchRoute sv \<lparr>lat = 0, lng = 0\<rparr> \<lparr>lat = 0, lng = 0\<rparr> st2 = (Inr route, st3)"
    unfolding st3_def st2_def st1_def sv_def route_def by (simp add: sample_simps)
  have le: "routeDistanceKm route
      \<le> calculateUsableRangeKm (evMaxRangeKm sampleTrip) (currentBatteryPercent sampleTrip)"
    by (simp add: u route_def)
  have d: "routeDistanceKm route = 150" by (simp add: route_def)
  from planEvTrip_no_charging_needed [OF g1 g2 r le] u g1 g2 r d
  show ?thesis unfolding sv_def by blast
qed

subsection \<open>Distinct stops\<close>

text \<open>
  C4. The charging stops of every plan that \<open>planEvTrip\<close> returns have pairwise distinct
  station ids.
\<close>

theorem planEvTrip_distinct_stops:
  assumes "planEvTrip sv params st = (Inr res, st')"
  shows "distinct (map stopId (chargingStops res))"
proof (cases "requiresCharging res")
  case False
  with assms have "chargingStops res = []"
    by (auto simp: planEvTrip_def Let_def split: prod.splits sum.splits if_splits)
  then show ?thesis by simp
next
  case True
  with assms obtain route legRange consumption stopsNeeded rd0 st3 rd stops
    where "planLegs sv params route legRange consumption stopsNeeded 1 [] {} rd0 st3
             = (Inr (stops, rd), st')"
      and "chargingStops res = stops"
    by (auto simp: planEvTrip_def Let_def split: prod.splits sum.splits if_splits)
  then show ?thesis
    using planLegs_distinct [of sv params route legRange consumption stopsNeeded 1 "[]" "{}" rd0 st3 stops rd st']
    by simp
qed

text \<open>
  The scenario of the specification: a route of 500 km against a usable range of 240 km
  gives legs of 216 km and two stops; with two stations in the directory, both are used,
  the solar one first.
\<close>

lemma sample_two_stops:
  "\<exists>res st'.
     planEvTrip (sampleServices 500000 [sampleStation Grid, (sampleStation Solar)\<lparr>stationId := ''102''\<rparr>])
       sampleTrip emptyCaches = (Inr res, st') \<and>
     map stopId (chargingStops res) = [''102'', ''101'']"
  by (simp add: planEvTrip_def planLegs.simps sample_simps stop_simps rescueNotUsed_def)

theorem planEvTrip_distinct_stops_witness:
  "\<exists>res st'.
     planEvTrip (sampleServices 500000 [sampleStation Grid, (sampleStation Solar)\<lparr>stationId := ''102''\<rparr>])
       sampleTrip emptyCaches = (Inr res, st') \<and>
     map stopId (chargingStops res) = [''102'', ''101''] \<and>
     distinct (map stopId (chargingStops res))"
proof -
  from sample_two_stops obtain res st' where
    p: "planEvTrip (sampleServices 500000 [sampleStation Grid, (sampleStation Solar)\<lparr>stationId := ''102''\<rparr>])
          sampleTrip emptyCaches = (Inr res, st')"
    and m: "map stopId (chargingStops res) = [''102'', ''101'']"
    by (elim exE conjE)
  have d: "distinct (map stopId (chargingStops res))"
    by (rule planEvTrip_distinct_stops [OF p])
  show ?thesis
    by (rule exI [of _ res], rule exI [of _ st'], intro conjI, rule p, rule m, rule d)
qed

subsection \<open>Stop selection\<close>











subsection \<open>Points along the route\<close>





lemma routeLength_Cons: "routeLength (a # xs) = (case xs of [] \<Rightarrow> 0 | b # _ \<Rightarrow> haversineKm a b + routeLength xs)"
  by (cases xs) simp_all















end
